theory Spec2Isabelle
  imports
    Complex_Main
    "HOL-Library.Char_ord"
    "HOL-Library.List_Lexorder"
    "HOL-Library.Product_Lexorder"
    "HOL-Library.Option_ord"
    "HOL-Library.Multiset"
begin

section \<open>Python strings and dictionaries\<close>

text \<open>
  A Python \<open>str\<close> is modelled as a \<open>string\<close>, each character read as a code point
  below 256. Strings compare as Python compares them: lexicographically by code point
  (the orders of \<open>Char_ord\<close> and \<open>List_Lexorder\<close>).

  \<open>is_space\<close> is \<open>str.isspace\<close> on one character, for the code points below 256:
  tab, line feed, vertical tab, form feed, carriage return, the four separators
  \<open>0x1C\<close> to \<open>0x1F\<close>, space, \<open>0x85\<close> and \<open>0xA0\<close>.
\<close>

definition is_space :: "char \<Rightarrow> bool" where
  "is_space c =
     (c \<in> set [CHR 0x09, CHR 0x0A, CHR 0x0B, CHR 0x0C, CHR 0x0D, CHR 0x1C, CHR 0x1D,
               CHR 0x1E, CHR 0x1F, CHR 0x20, CHR 0x85, CHR 0xA0])"

text \<open>
  \<open>str.split()\<close> with no argument: runs of whitespace separate the tokens, and leading
  and trailing whitespace yields no empty token. \<open>split_from cur s\<close> scans \<open>s\<close> with the
  token read so far in \<open>cur\<close>.
\<close>

fun split_from :: "string \<Rightarrow> string \<Rightarrow> string list" where
  "split_from cur [] = (if cur = [] then [] else [cur])"
| "split_from cur (c # cs) =
     (if is_space c
      then (if cur = [] then split_from [] cs else cur # split_from [] cs)
      else split_from (cur @ [c]) cs)"

definition str_split :: "string \<Rightarrow> string list" where
  "str_split s = split_from [] s"

text \<open>
  A dictionary literal is the list of its \<open>key: value\<close> entries in source order; where a
  key is written twice the later entry wins, as in Python. \<open>dict_get d k dflt\<close> is
  \<open>d.get(k, dflt)\<close>.
\<close>

definition dict_get :: "('k \<times> 'v) list \<Rightarrow> 'k \<Rightarrow> 'v \<Rightarrow> 'v" where
  "dict_get d k dflt = (case map_of (rev d) k of None \<Rightarrow> dflt | Some v \<Rightarrow> v)"

section \<open>The dashboard's sort key for month labels\<close>

text \<open>
  \<open>dashboard.py\<close>, \<open>get_month_year_key\<close> (lines 87 to 101; the Dashboard Overview page
  defines the same function again at lines 193 to 208):
  \<^verbatim>\<open>
    month_num = {'January': '01', ..., 'December': '12', 'Jan': '01', ..., 'Dec': '12'}
    parts = month_year_str.split()
    if len(parts) == 2:
        month, year = parts
        month_val = month_num.get(month, '00')
        return f"{year}-{month_val}"
    return ""
  \<close>
\<close>

definition month_num :: "(string \<times> string) list" where
  "month_num =
     [(''January'', ''01''), (''February'', ''02''), (''March'', ''03''), (''April'', ''04''),
      (''May'', ''05''), (''June'', ''06''), (''July'', ''07''), (''August'', ''08''),
      (''September'', ''09''), (''October'', ''10''), (''November'', ''11''),
      (''December'', ''12''),
      (''Jan'', ''01''), (''Feb'', ''02''), (''Mar'', ''03''), (''Apr'', ''04''),
      (''May'', ''05''), (''Jun'', ''06''), (''Jul'', ''07''), (''Aug'', ''08''),
      (''Sep'', ''09''), (''Oct'', ''10''), (''Nov'', ''11''), (''Dec'', ''12'')]"

definition get_month_year_key :: "string \<Rightarrow> string" where
  "get_month_year_key month_year_str =
     (let parts = str_split month_year_str in
      if length parts = 2 then
        (let month = parts ! 0; year = parts ! 1;
             month_val = dict_get month_num month ''00''
         in year @ ''-'' @ month_val)
      else '''')"

section \<open>Errors and \<open>int()\<close>\<close>

text \<open>The exceptions the modelled code can raise.\<close>

datatype error = ValueError | ZeroDivisionError

text \<open>
  \<open>int(s)\<close> on a string: whitespace is skipped at both ends, then an optional sign and
  decimal digits follow, where single underscores may stand between digits; anything
  else raises \<open>ValueError\<close>, and so does a text of more than 4300 digits (the default
  limit of CPython on the conversion). The whitespace that \<open>int()\<close> skips is not that
  of \<open>str.split()\<close>: it is tab, line feed, vertical tab, form feed, carriage return and
  space, and the two spaces \<open>0x85\<close> and \<open>0xA0\<close>; the separators \<open>0x1C\<close> to \<open>0x1F\<close> are
  not skipped. (Digits are the ASCII digits.)
\<close>

definition is_digit :: "char \<Rightarrow> bool" where
  "is_digit c = (CHR ''0'' \<le> c \<and> c \<le> CHR ''9'')"

definition digit_val :: "char \<Rightarrow> int" where
  "digit_val c = int (of_char c) - 48"

definition is_int_space :: "char \<Rightarrow> bool" where
  "is_int_space c =
     (c \<in> set [CHR 0x09, CHR 0x0A, CHR 0x0B, CHR 0x0C, CHR 0x0D, CHR 0x20, CHR 0x85, CHR 0xA0])"

definition int_strip :: "string \<Rightarrow> string" where
  "int_strip s = rev (dropWhile is_int_space (rev (dropWhile is_int_space s)))"

fun digits_from :: "int \<Rightarrow> string \<Rightarrow> int option" where
  "digits_from acc [] = Some acc"
| "digits_from acc [c] = (if is_digit c then Some (10 * acc + digit_val c) else None)"
| "digits_from acc (c # d # cs) =
     (if is_digit c then digits_from (10 * acc + digit_val c) (d # cs)
      else if c = CHR ''_'' \<and> is_digit d then digits_from acc (d # cs)
      else None)"

definition parse_digits :: "string \<Rightarrow> int option" where
  "parse_digits s =
     (case s of [] \<Rightarrow> None
      | c # cs \<Rightarrow> if is_digit c then digits_from (digit_val c) cs else None)"

definition py_int :: "string \<Rightarrow> error + int" where
  "py_int s =
     (if length (filter is_digit (int_strip s)) > 4300 then Inl ValueError
      else
        (case int_strip s of
           [] \<Rightarrow> Inl ValueError
         | c # cs \<Rightarrow>
             if c = CHR ''-'' then
               (case parse_digits cs of None \<Rightarrow> Inl ValueError | Some n \<Rightarrow> Inr (- n))
             else if c = CHR ''+'' then
               (case parse_digits cs of None \<Rightarrow> Inl ValueError | Some n \<Rightarrow> Inr n)
             else
               (case parse_digits (c # cs) of None \<Rightarrow> Inl ValueError | Some n \<Rightarrow> Inr n)))"

section \<open>Monthly reports\<close>

text \<open>
  A parsed report is the dictionary \<open>{'month': ..., 'year': ..., 'data': DataFrame}\<close>;
  a row of its data frame has the columns \<open>Name\<close>, \<open>Category Name\<close>, \<open>Sold\<close> and
  \<open>Net Sales\<close>. Numeric cells are real numbers: sums, differences and quotients are
  exact, the rounding of binary floating point is not modelled.
\<close>

record sales_row =
  Name :: string
  Category_Name :: string
  Sold :: real
  Net_Sales :: real

record report =
  month :: string
  year :: string
  data :: "sales_row list"

text \<open>
  \<open>map_result f xs\<close> applies \<open>f\<close> to the elements from left to right and stops at the
  first exception. \<open>py_sorted key xs\<close> is \<open>sorted(xs, key=key)\<close>: every key is computed
  first, then the elements are sorted by key, stably.
\<close>

fun map_result :: "('a \<Rightarrow> error + 'b) \<Rightarrow> 'a list \<Rightarrow> error + 'b list" where
  "map_result f [] = Inr []"
| "map_result f (x # xs) =
     (case f x of
        Inl e \<Rightarrow> Inl e
      | Inr y \<Rightarrow> (case map_result f xs of Inl e \<Rightarrow> Inl e | Inr ys \<Rightarrow> Inr (y # ys)))"

definition py_sorted :: "('a \<Rightarrow> error + 'k::linorder) \<Rightarrow> 'a list \<Rightarrow> error + 'a list" where
  "py_sorted key xs =
     (case map_result key xs of
        Inl e \<Rightarrow> Inl e
      | Inr ks \<Rightarrow> Inr (map snd (sort_key fst (zip ks xs))))"

subsection \<open>\<open>main.py\<close>: the \<open>monthly\<close> command\<close>

text \<open>
  \<open>main.py\<close>, lines 151 to 160:
  \<^verbatim>\<open>
    month_order = {'Jan': 1, 'Feb': 2, ..., 'Dec': 12}
    def get_sort_key(report):
        month = report['month']
        year = int(report['year'])
        month_num = month_order.get(month[:3], 0)
        return (year, month_num)
    sorted_reports = sorted(parsed_reports, key=get_sort_key)
  \<close>
  Python compares the key tuples lexicographically, which is the order of
  \<open>Product_Lexorder\<close> on pairs.
\<close>

definition month_order :: "(string \<times> int) list" where
  "month_order =
     [(''Jan'', 1), (''Feb'', 2), (''Mar'', 3), (''Apr'', 4), (''May'', 5), (''Jun'', 6),
      (''Jul'', 7), (''Aug'', 8), (''Sep'', 9), (''Oct'', 10), (''Nov'', 11), (''Dec'', 12)]"

definition get_sort_key :: "report \<Rightarrow> error + (int \<times> int)" where
  "get_sort_key report =
     (let m = month report in
      case py_int (year report) of
        Inl e \<Rightarrow> Inl e
      | Inr y \<Rightarrow>
          (let month_num = dict_get month_order (take 3 m) 0
           in Inr (y, month_num)))"

definition sorted_reports :: "report list \<Rightarrow> error + report list" where
  "sorted_reports parsed_reports = py_sorted get_sort_key parsed_reports"

text \<open>
  \<open>main.py\<close>, lines 162 to 178, the totals of each month, in the order of
  \<open>sorted_reports\<close>:
  \<^verbatim>\<open>
    for report in sorted_reports:
        df = report['data']
        df_filtered = df[df['Category Name'] != 'TOTAL']
        month_label = f"{report['month']} {report['year']}"
        units = df_filtered['Sold'].sum()
        sales = df_filtered['Net Sales'].sum()
        months.append(month_label); total_units.append(units); total_sales.append(sales)
  \<close>
\<close>

definition filter_total :: "sales_row list \<Rightarrow> sales_row list" where
  "filter_total df = filter (\<lambda>row. Category_Name row \<noteq> ''TOTAL'') df"

definition month_label :: "report \<Rightarrow> string" where
  "month_label report = month report @ '' '' @ year report"

definition months_of :: "report list \<Rightarrow> string list" where
  "months_of reports = map month_label reports"

definition total_units_of :: "report list \<Rightarrow> real list" where
  "total_units_of reports = map (\<lambda>report. sum_list (map Sold (filter_total (data report)))) reports"

definition total_sales_of :: "report list \<Rightarrow> real list" where
  "total_sales_of reports =
     map (\<lambda>report. sum_list (map Net_Sales (filter_total (data report)))) reports"

text \<open>
  \<open>main.py\<close>, lines 203 to 220, the growth table. A row is the period label, the
  units growth and the sales growth; a growth cell is \<open>Some\<close> percentage (the source
  prints it with two decimals) or \<open>None\<close> for the text \<open>N/A\<close>.
  \<^verbatim>\<open>
    for i in range(1, len(sorted_reports)):
        period = f"{months[i-1]} to {months[i]}"
        if total_units[i-1] > 0:
            units_growth = ((total_units[i] - total_units[i-1]) / total_units[i-1]) * 100
            units_growth_str = f"{units_growth:.2f}%"
        else:
            units_growth_str = "N/A"
        (the same for total_sales)
        growth_data.append([period, units_growth_str, sales_growth_str])
  \<close>
\<close>

definition growth_cell :: "real list \<Rightarrow> nat \<Rightarrow> real option" where
  "growth_cell totals i =
     (if totals ! (i - 1) > 0
      then Some (((totals ! i - totals ! (i - 1)) / totals ! (i - 1)) * 100)
      else None)"

definition growth_data ::
  "string list \<Rightarrow> real list \<Rightarrow> real list \<Rightarrow> nat \<Rightarrow> (string \<times> real option \<times> real option) list"
where
  "growth_data months total_units total_sales n =
     map (\<lambda>i. (months ! (i - 1) @ '' to '' @ months ! i,
               growth_cell total_units i,
               growth_cell total_sales i))
         [1..<n]"

text \<open>
  The whole \<open>monthly\<close> command (lines 137 to 226): with fewer than two parsed reports it
  prints a message and returns (\<open>None\<close>); otherwise it yields the table of totals and
  the table of growth rates.
\<close>

definition monthly ::
  "report list \<Rightarrow>
   error + ((string \<times> real \<times> real) list \<times> (string \<times> real option \<times> real option) list) option"
where
  "monthly parsed_reports =
     (if length parsed_reports < 2 then Inr None
      else
        (case sorted_reports parsed_reports of
           Inl e \<Rightarrow> Inl e
         | Inr srs \<Rightarrow>
             (let months = months_of srs;
                  total_units = total_units_of srs;
                  total_sales = total_sales_of srs;
                  table = map (\<lambda>i. (months ! i, total_units ! i, total_sales ! i))
                              [0..<length months];
                  growth = (if length srs \<ge> 2
                            then growth_data months total_units total_sales (length srs)
                            else [])
              in Inr (Some (table, growth)))))"

subsection \<open>\<open>main.py\<close>: the \<open>top\<close> command\<close>

text \<open>
  Lines 58 to 60: the rows of all reports, without the rows of category \<open>TOTAL\<close>.
  \<^verbatim>\<open>
    all_data = pd.concat([report['data'] for report in parsed_reports])
    all_data_filtered = all_data[all_data['Category Name'] != 'TOTAL']
  \<close>
\<close>

definition all_data :: "report list \<Rightarrow> sales_row list" where
  "all_data parsed_reports = concat (map data parsed_reports)"

definition all_data_filtered :: "report list \<Rightarrow> sales_row list" where
  "all_data_filtered parsed_reports =
     filter (\<lambda>row. Category_Name row \<noteq> ''TOTAL'') (all_data parsed_reports)"

section \<open>The dashboard\<close>

subsection \<open>The list of reports\<close>

text \<open>
  \<open>dashboard.py\<close>, \<open>get_reports\<close> (lines 26 to 36) sorts the parsed reports by the
  year as it is stored, without \<open>int()\<close>, and the index of the month token:
  \<^verbatim>\<open>
    return sorted(reports, key=lambda x: (x['year'],
        {'Jan': 1, 'Feb': 2, ..., 'Dec': 12}.get(x['month'], 0)))
  \<close>
\<close>

definition get_reports_key :: "report \<Rightarrow> string \<times> int" where
  "get_reports_key x = (year x, dict_get month_order (month x) 0)"

definition get_reports :: "report list \<Rightarrow> report list" where
  "get_reports reports = sort_key get_reports_key reports"

subsection \<open>The combined data frame\<close>

text \<open>
  \<open>dashboard.py\<close>, \<open>get_combined_data\<close> (lines 42 to 69):
  \<^verbatim>\<open>
    month_order = {'Jan': '01', ..., 'Dec': '12'}
    for report in reports:
        df = report['data'].copy()
        df = df[df['Category Name'] != 'TOTAL']
        df['Month'] = f"{report['month']} {report['year']}"
        month_num = month_order.get(report['month'], '00')
        df['MonthSort'] = f"{report['year']}-{month_num}"
        df['MonthIndex'] = int(month_num)
        df['Year'] = int(report['year'])
        all_dfs.append(df)
    if all_dfs:
        return pd.concat(all_dfs)
    return pd.DataFrame()
  \<close>
  A row of the combined frame is a sales row with the four added columns.
\<close>

record combined_row = sales_row +
  Month :: string
  MonthSort :: string
  MonthIndex :: int
  Year :: int

definition month_order_str :: "(string \<times> string) list" where
  "month_order_str =
     [(''Jan'', ''01''), (''Feb'', ''02''), (''Mar'', ''03''), (''Apr'', ''04''),
      (''May'', ''05''), (''Jun'', ''06''), (''Jul'', ''07''), (''Aug'', ''08''),
      (''Sep'', ''09''), (''Oct'', ''10''), (''Nov'', ''11''), (''Dec'', ''12'')]"

definition combine_report :: "report \<Rightarrow> error + combined_row list" where
  "combine_report report =
     (let df = filter (\<lambda>row. Category_Name row \<noteq> ''TOTAL'') (data report);
          month_num = dict_get month_order_str (month report) ''00''
      in case py_int month_num of
           Inl e \<Rightarrow> Inl e
         | Inr mi \<Rightarrow>
             (case py_int (year report) of
                Inl e \<Rightarrow> Inl e
              | Inr y \<Rightarrow>
                  Inr (map (\<lambda>row. \<lparr>Name = Name row, Category_Name = Category_Name row,
                                    Sold = Sold row, Net_Sales = Net_Sales row,
                                    Month = month report @ '' '' @ year report,
                                    MonthSort = year report @ ''-'' @ month_num,
                                    MonthIndex = mi, Year = y\<rparr>) df)))"

definition get_combined_data :: "report list \<Rightarrow> error + combined_row list" where
  "get_combined_data reports =
     (case map_result combine_report reports of
        Inl e \<Rightarrow> Inl e
      | Inr all_dfs \<Rightarrow> Inr (concat all_dfs))"

subsection \<open>Float results of pandas\<close>

text \<open>
  Where pandas divides two columns the result is a float that may be infinite or
  \<open>NaN\<close>: a finite quotient for a divisor other than zero, and for a zero divisor
  \<open>inf\<close>, \<open>-inf\<close> or \<open>NaN\<close> as the dividend is positive, negative or zero.
\<close>

datatype fval = Fin real | PInf | NInf | NaN

definition fdiv :: "real \<Rightarrow> real \<Rightarrow> fval" where
  "fdiv a b =
     (if b \<noteq> 0 then Fin (a / b)
      else if a > 0 then PInf
      else if a < 0 then NInf
      else NaN)"

definition fsub :: "fval \<Rightarrow> real \<Rightarrow> fval" where
  "fsub v c = (case v of Fin x \<Rightarrow> Fin (x - c) | PInf \<Rightarrow> PInf | NInf \<Rightarrow> NInf | NaN \<Rightarrow> NaN)"

text \<open>\<open>v * 100\<close>: the factor is positive, so an infinity keeps its sign.\<close>

definition ftimes100 :: "fval \<Rightarrow> fval" where
  "ftimes100 v =
     (case v of Fin x \<Rightarrow> Fin (x * 100) | PInf \<Rightarrow> PInf | NInf \<Rightarrow> NInf | NaN \<Rightarrow> NaN)"

text \<open>
  \<open>Series.pct_change()\<close>: the first entry is \<open>NaN\<close>, every later entry is the value
  divided by the one before it, minus one.
\<close>

fun pct_change :: "real list \<Rightarrow> fval list" where
  "pct_change [] = []"
| "pct_change (x # xs) = NaN # map2 (\<lambda>prev cur. fsub (fdiv cur prev) 1) (x # xs) xs"

subsection \<open>Monthly Analysis: growth\<close>

text \<open>
  \<open>dashboard.py\<close>, lines 286 to 293, the monthly sums in chronological order. A row is
  the month label, the net sales and the units sold.
  \<^verbatim>\<open>
    monthly_data = filtered_df.groupby('Month').agg({
        'Net Sales': 'sum', 'Sold': 'sum'}).reset_index()
    monthly_data['SortKey'] = monthly_data['Month'].apply(get_month_year_key)
    monthly_data = monthly_data.sort_values('SortKey', ascending=True)
  \<close>
  (Rows are sorted by their key; rows with equal keys stay in the order of the grouped
  frame here, and nothing below depends on their order.)
\<close>

definition groupby_Month :: "combined_row list \<Rightarrow> (string \<times> real \<times> real) list" where
  "groupby_Month filtered_df =
     map (\<lambda>m. let g = filter (\<lambda>row. Month row = m) filtered_df in
              (m, sum_list (map Net_Sales g), sum_list (map Sold g)))
         (sort (remdups (map Month filtered_df)))"

definition monthly_data :: "combined_row list \<Rightarrow> (string \<times> real \<times> real) list" where
  "monthly_data filtered_df =
     sort_key (\<lambda>row. get_month_year_key (fst row)) (groupby_Month filtered_df)"

text \<open>
  \<open>dashboard.py\<close>, lines 295 to 298 and 382 to 383, on the \<open>Net Sales\<close> column of
  \<open>monthly_data\<close>:
  \<^verbatim>\<open>
    if len(monthly_data) > 1:
        monthly_data['Sales Growth'] = monthly_data['Net Sales'].pct_change() * 100
        monthly_data['Units Growth'] = monthly_data['Sold'].pct_change() * 100
    ...
    if 'Sales Growth' in display_df.columns:
        display_df['Sales Growth'] = display_df['Sales Growth'].apply(
            lambda x: f"{x:.2f}%" if pd.notna(x) else "N/A")
  \<close>
  \<open>Sales_Growth\<close> is the column (\<open>None\<close> when it is not created); a displayed cell is
  \<open>None\<close> for the text \<open>N/A\<close> and \<open>Some v\<close> for the formatted number \<open>v\<close>.
\<close>

definition Sales_Growth :: "real list \<Rightarrow> fval list option" where
  "Sales_Growth net_sales =
     (if length net_sales > 1 then Some (map ftimes100 (pct_change net_sales)) else None)"

definition display_growth :: "fval \<Rightarrow> fval option" where
  "display_growth x = (if x \<noteq> NaN then Some x else None)"

subsection \<open>Dashboard Overview: average price\<close>

text \<open>
  \<open>dashboard.py\<close>, lines 171 to 173:
  \<^verbatim>\<open>
    total_sales = filtered_df['Net Sales'].sum()
    total_units = filtered_df['Sold'].sum()
    avg_price = total_sales / total_units if total_units > 0 else 0
  \<close>
\<close>

definition avg_price :: "'a sales_row_scheme list \<Rightarrow> real" where
  "avg_price filtered_df =
     (let total_sales = sum_list (map Net_Sales filtered_df);
          total_units = sum_list (map Sold filtered_df)
      in if total_units > 0 then total_sales / total_units else 0)"

subsection \<open>Product Analysis and Top Products: average price per product\<close>

text \<open>
  \<open>dashboard.py\<close>, lines 417 to 424 (Product Analysis) and 601 to 607 (Top Products):
  \<^verbatim>\<open>
    product_perf = product_df.groupby('Name').agg({
        'Net Sales': 'sum', 'Sold': 'sum', 'Category Name': 'first'}).reset_index()
    product_perf['Avg Price'] = product_perf['Net Sales'] / product_perf['Sold']

    product_data = filtered_df.groupby(['Name', 'Category Name']).agg({
        'Net Sales': 'sum', 'Sold': 'sum'}).reset_index()
    product_data['Avg Price'] = product_data['Net Sales'] / product_data['Sold']
  \<close>
  \<open>groupby\<close> yields one row per distinct key, in the order of the keys. The tables show
  \<open>Avg Price\<close> through \<open>f"${x:.2f}" if pd.notna(x) else "N/A"\<close>.
\<close>

record priced_row = sales_row +
  Avg_Price :: fval

definition with_Avg_Price :: "sales_row \<Rightarrow> priced_row" where
  "with_Avg_Price row =
     \<lparr>Name = Name row, Category_Name = Category_Name row, Sold = Sold row,
      Net_Sales = Net_Sales row, Avg_Price = fdiv (Net_Sales row) (Sold row)\<rparr>"

definition groupby_Name :: "'a sales_row_scheme list \<Rightarrow> sales_row list" where
  "groupby_Name df =
     map (\<lambda>n. let g = filter (\<lambda>row. Name row = n) df in
              \<lparr>Name = n,
               Category_Name = (case g of [] \<Rightarrow> [] | row # _ \<Rightarrow> Category_Name row),
               Sold = sum_list (map Sold g),
               Net_Sales = sum_list (map Net_Sales g)\<rparr>)
         (sort (remdups (map Name df)))"

definition groupby_Name_Category :: "'a sales_row_scheme list \<Rightarrow> sales_row list" where
  "groupby_Name_Category df =
     map (\<lambda>(n, c). let g = filter (\<lambda>row. Name row = n \<and> Category_Name row = c) df in
              \<lparr>Name = n, Category_Name = c,
               Sold = sum_list (map Sold g),
               Net_Sales = sum_list (map Net_Sales g)\<rparr>)
         (sort (remdups (map (\<lambda>row. (Name row, Category_Name row)) df)))"

definition product_perf :: "'a sales_row_scheme list \<Rightarrow> priced_row list" where
  "product_perf product_df = map with_Avg_Price (groupby_Name product_df)"

definition product_data :: "'a sales_row_scheme list \<Rightarrow> priced_row list" where
  "product_data filtered_df = map with_Avg_Price (groupby_Name_Category filtered_df)"

definition display_price :: "fval \<Rightarrow> fval option" where
  "display_price x = (if x \<noteq> NaN then Some x else None)"

section \<open>Stock levels\<close>

text \<open>
  A row of the \<open>products\<close> table, with the columns the modelled code reads. Quantities
  and minimum stock levels are integers (\<open>inventory.py\<close> stores \<open>int(input(...))\<close>, of
  any sign).
\<close>

record product =
  product_id :: int
  sku :: string
  name :: string
  category :: string
  quantity :: int
  min_stock :: int
  price :: real
  cost :: real

subsection \<open>Floats\<close>

text \<open>
  Where an integer is divided by an integer, or meets a float, Python and SQLite
  compute with floats (binary64): the result is the exact result rounded to the nearest
  float. The rounding is the parameter \<open>fl\<close> of the definitions below: \<open>fl x\<close> is the
  float nearest to the real number \<open>x\<close>. The statements use of it no more than
  \<open>float_rounding fl\<close>: rounding is monotone, and every number \<open>n / 2 ^ e\<close> with
  \<open>\<bar>n\<bar> \<le> 2 ^ 53\<close> and \<open>e \<le> 1022\<close> is a float and is left unchanged. (The integers of
  the table are 64-bit integers, so no result is outside the range of the floats. The
  float literals \<open>0.25\<close> and \<open>0.5\<close> are floats, a product with one of them is exact, and
  Python compares an integer with a float exactly.)
\<close>

definition float_rounding :: "(real \<Rightarrow> real) \<Rightarrow> bool" where
  "float_rounding fl =
     ((\<forall>x y. x \<le> y \<longrightarrow> fl x \<le> fl y) \<and>
      (\<forall>(n::int) (e::nat). \<bar>n\<bar> \<le> 2 ^ 53 \<and> e \<le> 1022 \<longrightarrow>
         fl (real_of_int n / 2 ^ e) = real_of_int n / 2 ^ e))"

subsection \<open>\<open>inventory.py\<close>, \<open>check_low_stock\<close>\<close>

text \<open>
  Lines 216 to 220, the query:
  \<^verbatim>\<open>
    SELECT * FROM products
    WHERE quantity <= min_stock
    ORDER BY (quantity * 1.0 / min_stock), name
  \<close>
  The rows are those that satisfy the \<open>WHERE\<close> clause, ordered by the two sort terms.
  The first term is a float: the quantity and the minimum are converted to floats and
  divided. In SQLite a division by zero is \<open>NULL\<close>, and \<open>NULL\<close> sorts first: \<open>None\<close> here.
\<close>

definition order_ratio :: "(real \<Rightarrow> real) \<Rightarrow> 'a product_scheme \<Rightarrow> real option" where
  "order_ratio fl p =
     (if min_stock p = 0 then None
      else Some (fl (fl (real_of_int (quantity p)) * 1.0 / fl (real_of_int (min_stock p)))))"

definition low_stock :: "(real \<Rightarrow> real) \<Rightarrow> product list \<Rightarrow> product list" where
  "low_stock fl products =
     sort_key (\<lambda>p. (order_ratio fl p, name p))
       (filter (\<lambda>p. quantity p \<le> min_stock p) products)"

text \<open>
  Lines 230 to 239, the status of one row:
  \<^verbatim>\<open>
    ratio = product['quantity'] / product['min_stock']
    if product['quantity'] == 0:
        status = "OUT OF STOCK"
    elif ratio <= 0.25:
        status = "CRITICAL"
    elif ratio <= 0.5:
        status = "LOW"
    else:
        status = "WARNING"
  \<close>
  The division of two integers raises \<open>ZeroDivisionError\<close> for a zero divisor, and
  otherwise yields the quotient rounded to a float.
\<close>

definition stock_status :: "(real \<Rightarrow> real) \<Rightarrow> 'a product_scheme \<Rightarrow> error + string" where
  "stock_status fl p =
     (if min_stock p = 0 then Inl ZeroDivisionError
      else
        (let ratio = fl (real_of_int (quantity p) / real_of_int (min_stock p)) in
         Inr (if quantity p = 0 then ''OUT OF STOCK''
              else if ratio \<le> 0.25 then ''CRITICAL''
              else if ratio \<le> 0.5 then ''LOW''
              else ''WARNING'')))"

text \<open>
  The loop over the rows prints one line per row. An exception leaves the loop and the
  function: \<open>status_lines\<close> gives the lines printed and the exception raised, if any.
\<close>

fun status_lines ::
  "(real \<Rightarrow> real) \<Rightarrow> 'a product_scheme list \<Rightarrow> ('a product_scheme \<times> string) list \<times> error option"
where
  "status_lines fl [] = ([], None)"
| "status_lines fl (p # ps) =
     (case stock_status fl p of
        Inl e \<Rightarrow> ([], Some e)
      | Inr status \<Rightarrow> (let (out, err) = status_lines fl ps in ((p, status) # out, err)))"

definition check_low_stock ::
  "(real \<Rightarrow> real) \<Rightarrow> product list \<Rightarrow> ((product \<times> string) list \<times> error option) option"
where
  "check_low_stock fl products =
     (if low_stock fl products = [] then None
      else Some (status_lines fl (low_stock fl products)))"

subsection \<open>\<open>reports.py\<close>, \<open>low_stock_report\<close>\<close>

text \<open>
  Lines 501 to 515, the query: the same selection and order, with the computed column
  \<open>(p.min_stock - p.quantity) as units_needed\<close>.
\<close>

record item = product +
  units_needed :: int

definition low_stock_items :: "(real \<Rightarrow> real) \<Rightarrow> product list \<Rightarrow> item list" where
  "low_stock_items fl products =
     map (\<lambda>p. \<lparr>product_id = product_id p, sku = sku p, name = name p, category = category p,
               quantity = quantity p, min_stock = min_stock p, price = price p, cost = cost p,
               units_needed = min_stock p - quantity p\<rparr>)
         (sort_key (\<lambda>p. (order_ratio fl p, name p))
            (filter (\<lambda>p. quantity p \<le> min_stock p) products))"

text \<open>
  Lines 601 to 609, the status written to the CSV export (lines 531 to 539 group the
  rows by the same tests, the first two branches into the list \<open>critical\<close>):
  \<^verbatim>\<open>
    if item['quantity'] == 0:
        status = "OUT OF STOCK"
    elif item['quantity'] <= item['min_stock'] * 0.25:
        status = "CRITICAL"
    elif item['quantity'] <= item['min_stock'] * 0.5:
        status = "LOW"
    else:
        status = "WARNING"
  \<close>
  In the product with a float the minimum is converted to a float; nothing here can
  raise.
\<close>

definition csv_status :: "(real \<Rightarrow> real) \<Rightarrow> 'a product_scheme \<Rightarrow> string" where
  "csv_status fl item =
     (if quantity item = 0 then ''OUT OF STOCK''
      else if real_of_int (quantity item) \<le> fl (real_of_int (min_stock item)) * 0.25
        then ''CRITICAL''
      else if real_of_int (quantity item) \<le> fl (real_of_int (min_stock item)) * 0.5
        then ''LOW''
      else ''WARNING'')"

fun group_by_severity :: "(real \<Rightarrow> real) \<Rightarrow> item list \<Rightarrow> item list \<times> item list \<times> item list" where
  "group_by_severity fl [] = ([], [], [])"
| "group_by_severity fl (item # items) =
     (let (critical, low, warning) = group_by_severity fl items in
      if quantity item = 0 then (item # critical, low, warning)
      else if real_of_int (quantity item) \<le> fl (real_of_int (min_stock item)) * 0.25
        then (item # critical, low, warning)
      else if real_of_int (quantity item) \<le> fl (real_of_int (min_stock item)) * 0.5
        then (critical, item # low, warning)
      else (critical, low, item # warning))"

text \<open>
  Lines 601 to 621, the product list of the export: one row per item of the query
  result, in its order, with the status of the item.
\<close>

definition product_list :: "(real \<Rightarrow> real) \<Rightarrow> item list \<Rightarrow> (item \<times> string) list" where
  "product_list fl low_stock_rows = map (\<lambda>item. (item, csv_status fl item)) low_stock_rows"

section \<open>Tables and inputs used in the statements\<close>

text \<open>
  The twelve months in calendar order, each as the pair of its three-letter token and
  its full name, in the capitalisation of the source's dictionaries.
\<close>

definition month_names :: "(string \<times> string) list" where
  "month_names =
     [(''Jan'', ''January''), (''Feb'', ''February''), (''Mar'', ''March''), (''Apr'', ''April''),
      (''May'', ''May''), (''Jun'', ''June''), (''Jul'', ''July''), (''Aug'', ''August''),
      (''Sep'', ''September''), (''Oct'', ''October''), (''Nov'', ''November''),
      (''Dec'', ''December'')]"

text \<open>The capital letters \<open>A\<close> to \<open>Z\<close>.\<close>

definition is_upper :: "char \<Rightarrow> bool" where
  "is_upper c = (CHR ''A'' \<le> c \<and> c \<le> CHR ''Z'')"

text \<open>
  \<open>unrounded\<close> changes no number. It meets \<open>float_rounding\<close>; the statements evaluated
  at an input below use it at inputs where every rounded number is a float, so that
  every rounding gives the same there.
\<close>

definition unrounded :: "real \<Rightarrow> real" where
  "unrounded x = x"

text \<open>Concrete inputs, for the statements evaluated at an input.\<close>

definition report_of :: "string \<Rightarrow> string \<Rightarrow> report" where
  "report_of m y = \<lparr>month = m, year = y, data = []\<rparr>"

definition row_of :: "string \<Rightarrow> string \<Rightarrow> real \<Rightarrow> real \<Rightarrow> sales_row" where
  "row_of n c units sales = \<lparr>Name = n, Category_Name = c, Sold = units, Net_Sales = sales\<rparr>"

definition stocked :: "string \<Rightarrow> int \<Rightarrow> int \<Rightarrow> product" where
  "stocked n q m =
     \<lparr>product_id = 1, sku = ''SKU'', name = n, category = ''Pods'',
      quantity = q, min_stock = m, price = 10, cost = 4\<rparr>"

definition zero_then_fifty :: "report list" where
  "zero_then_fifty =
     [\<lparr>month = ''Jan'', year = ''2024'', data = [row_of ''Pod'' ''Pods'' 0 0]\<rparr>,
      \<lparr>month = ''Feb'', year = ''2024'', data = [row_of ''Pod'' ''Pods'' 10 50]\<rparr>]"

section \<open>Evaluation of the string functions\<close>

lemmas str_eval =
  str_split_def is_space_def dict_get_def int_strip_def is_int_space_def py_int_def
  parse_digits_def is_digit_def digit_val_def

lemma split_from_token:
  "\<forall>c \<in> set tok. \<not> is_space c \<Longrightarrow> split_from cur (tok @ rest) = split_from (cur @ tok) rest"
  by (induction tok arbitrary: cur) auto

lemma str_split_token_space:
  assumes "tok \<noteq> []" and "\<forall>c \<in> set tok. \<not> is_space c"
  shows "str_split (tok @ CHR '' '' # rest) = tok # str_split rest"
  using assms by (simp add: str_split_def split_from_token is_space_def)

lemma append_less_append: "(p @ (xs::string) < p @ ys) = (xs < ys)"
  by (induction p) auto

lemma dict_get_absent: "k \<notin> fst ` set d \<Longrightarrow> dict_get d k dflt = dflt"
  unfolding dict_get_def by (auto split: option.splits dest!: map_of_SomeD simp: rev_image_eqI)

lemma month_num_present: "m \<in> fst ` set month_num \<Longrightarrow> ''00'' < dict_get month_num m ''00''"
proof -
  have "\<forall>m \<in> fst ` set month_num. ''00'' < dict_get month_num m ''00''"
    by (simp add: dict_get_def month_num_def)
  then show "m \<in> fst ` set month_num \<Longrightarrow> ''00'' < dict_get month_num m ''00''" by blast
qed

text \<open>
  The keys of the dictionaries are exactly the tokens of \<open>month_names\<close>: the three-letter
  tokens and the full names in \<open>month_num\<close>, the three-letter tokens in \<open>month_order\<close>.
\<close>

lemma month_num_keys:
  "set (map fst month_num) = set (map fst month_names) \<union> set (map snd month_names)"
  by (simp add: month_num_def month_names_def insert_commute)

lemma month_order_keys: "map fst month_order = map fst month_names"
  by (simp add: month_order_def month_names_def)

lemma month_names_tokens:
  "\<forall>(a, f) \<in> set month_names.
     a \<noteq> [] \<and> f \<noteq> [] \<and> (\<forall>c \<in> set a. \<not> is_space c) \<and> (\<forall>c \<in> set f. \<not> is_space c)"
  by (simp add: month_names_def is_space_def)

lemma month_names_month_num:
  "\<forall>(a, f) \<in> set month_names.
     dict_get month_num a ''00'' = dict_get month_num f ''00'' \<and>
     dict_get month_num a ''00'' \<noteq> ''00''"
  by (simp add: month_names_def dict_get_def month_num_def)

lemma month_names_take3: "\<forall>(a, f) \<in> set month_names. take 3 f = take 3 a"
  by (simp add: month_names_def)

lemma month_names_month_order:
  "\<forall>(a, f) \<in> set month_names. dict_get month_order (take 3 a) 0 \<noteq> 0"
  by (simp add: month_names_def dict_get_def month_order_def)

lemma py_int_month_order_str: "\<exists>mi. py_int (dict_get month_order_str m ''00'') = Inr mi"
proof -
  have v: "dict_get month_order_str m ''00'' \<in>
      set [''00'', ''01'', ''02'', ''03'', ''04'', ''05'', ''06'',
           ''07'', ''08'', ''09'', ''10'', ''11'', ''12'']"
    unfolding dict_get_def month_order_str_def by (simp split: option.splits)
  have "\<forall>v \<in> set [''00'', ''01'', ''02'', ''03'', ''04'', ''05'', ''06'',
           ''07'', ''08'', ''09'', ''10'', ''11'', ''12'']. \<exists>mi. py_int v = Inr mi"
    by (simp add: py_int_def int_strip_def is_int_space_def parse_digits_def is_digit_def
        digit_val_def)
  with v show ?thesis by blast
qed

text \<open>
  \<open>int()\<close> at some texts: white space at the ends is skipped, but not the separator
  \<open>0x1C\<close>, which \<open>split()\<close> does treat as white space.
\<close>

lemma py_int_examples:
  "py_int ''2024'' = Inr 2024"
  "py_int ('' 2024'' @ [CHR 0x0A]) = Inr 2024"
  "py_int (CHR 0xA0 # ''2024'') = Inr 2024"
  "py_int (CHR 0x1C # ''2024'') = Inl ValueError"
  "py_int ''1_000'' = Inr 1000"
  "py_int ''-12'' = Inr (- 12)"
  "py_int ''+7'' = Inr 7"
  "py_int [] = Inl ValueError"
  "py_int ''12a'' = Inl ValueError"
  "py_int ''1__0'' = Inl ValueError"
  "py_int ''20 24'' = Inl ValueError"
  "str_split (''Jan'' @ CHR 0x1C # ''2024'') = [''Jan'', ''2024'']"
  by (simp_all add: str_eval)

section \<open>Sorting and loops with exceptions\<close>

lemma map_result_Inr:
  "map_result f xs = Inr ys \<Longrightarrow> list_all2 (\<lambda>x y. f x = Inr y) xs ys"
  by (induction xs arbitrary: ys) (auto split: sum.splits)

lemma map_result_total:
  "\<forall>x \<in> set xs. \<exists>y. f x = Inr y \<Longrightarrow> \<exists>ys. map_result f xs = Inr ys"
  by (induction xs) (auto split: sum.splits)

lemma list_all2_snd_fst:
  "\<forall>z \<in> set zs. P (snd z) (fst z) \<Longrightarrow> list_all2 P (map snd zs) (map fst zs)"
  by (induction zs) auto

lemma py_sorted_Inr:
  assumes "py_sorted key xs = Inr out"
  shows "mset out = mset xs"
    and "\<exists>ks. list_all2 (\<lambda>x k. key x = Inr k) out ks \<and> sorted ks"
proof -
  from assms obtain ks where ks: "map_result key xs = Inr ks"
    and out: "out = map snd (sort_key fst (zip ks xs))"
    by (auto simp: py_sorted_def split: sum.splits)
  from map_result_Inr[OF ks] have l2: "list_all2 (\<lambda>x k. key x = Inr k) xs ks" .
  then have len: "length xs = length ks" by (rule list_all2_lengthD)
  let ?zs = "sort_key fst (zip ks xs)"
  have "mset (map snd ?zs) = image_mset snd (mset (zip ks xs))" by simp
  also have "\<dots> = mset (map snd (zip ks xs))" by simp
  also have "\<dots> = mset xs" using len by simp
  finally show "mset out = mset xs" by (simp add: out)
  have "\<forall>z \<in> set (zip ks xs). key (snd z) = Inr (fst z)"
    using l2 by (auto simp: list_all2_conv_all_nth in_set_zip)
  then have "\<forall>z \<in> set ?zs. key (snd z) = Inr (fst z)" by simp
  then have "list_all2 (\<lambda>x k. key x = Inr k) (map snd ?zs) (map fst ?zs)"
    by (rule list_all2_snd_fst)
  moreover have "sorted (map fst ?zs)" by simp
  ultimately show "\<exists>ks. list_all2 (\<lambda>x k. key x = Inr k) out ks \<and> sorted ks"
    unfolding out by blast
qed

section \<open>Chronological order of the reports\<close>

text \<open>
  The \<open>monthly\<close> command of \<open>main.py\<close> orders the reports by the pair (year, month
  index). For a year text that \<open>int()\<close> reads as \<open>n\<close>, the keys of the twelve months, as
  three-letter tokens and as full names, are \<open>(n, 1)\<close> to \<open>(n, 12)\<close> in calendar order.
\<close>

lemma get_sort_key_calendar:
  assumes "py_int y = Inr n"
  shows "map (\<lambda>(a, f). (get_sort_key \<lparr>month = a, year = y, data = d\<rparr>,
                        get_sort_key \<lparr>month = f, year = y, data = d\<rparr>)) month_names =
         map (\<lambda>i. (Inr (n, i), Inr (n, i))) [1, 2, 3, 4, 5, 6, 7, 8, 9, 10, 11, 12]"
  using assms by (simp add: get_sort_key_def month_names_def dict_get_def month_order_def)

text \<open>
  The sort key of report \<open>a\<close> is less than the sort key of report \<open>b\<close> exactly when the
  year of \<open>a\<close> is earlier, or the years are equal and the month index of \<open>a\<close> is
  smaller. So when the year of \<open>a\<close> is earlier than the year of \<open>b\<close>, the key of \<open>a\<close>
  is strictly less than the key of \<open>b\<close>, whatever their months and labels are, and in
  every result of \<open>sorted_reports\<close> that holds both, \<open>a\<close> stands before \<open>b\<close>.
\<close>

lemma get_sort_key_order:
  assumes "py_int (year a) = Inr ya" and "py_int (year b) = Inr yb"
  shows "\<exists>ka kb. get_sort_key a = Inr ka \<and> get_sort_key b = Inr kb \<and>
           (ka < kb \<longleftrightarrow>
              ya < yb \<or>
              ya = yb \<and> dict_get month_order (take 3 (month a)) 0
                        < dict_get month_order (take 3 (month b)) 0) \<and>
           (ya < yb \<longrightarrow>
              ka < kb \<and>
              (\<forall>rs srs i j. sorted_reports rs = Inr srs \<and> i < length srs \<and> j < length srs \<and>
                 srs ! i = a \<and> srs ! j = b \<longrightarrow> i < j))"
proof -
  let ?ka = "(ya, dict_get month_order (take 3 (month a)) 0)"
  let ?kb = "(yb, dict_get month_order (take 3 (month b)) 0)"
  have ka: "get_sort_key a = Inr ?ka" and kb: "get_sort_key b = Inr ?kb"
    using assms by (simp_all add: get_sort_key_def)
  have lex: "?ka < ?kb \<longleftrightarrow>
      ya < yb \<or>
      ya = yb \<and> dict_get month_order (take 3 (month a)) 0
                < dict_get month_order (take 3 (month b)) 0"
    by (auto simp: less_prod_def)
  have pos: "i < j"
    if less: "?ka < ?kb"
      and h: "sorted_reports rs = Inr srs" "i < length srs" "j < length srs"
        "srs ! i = a" "srs ! j = b" for rs srs i j
  proof (rule ccontr)
    assume "\<not> i < j"
    then have ji: "j \<le> i" by simp
    from py_sorted_Inr(2)[OF h(1)[unfolded sorted_reports_def]]
    obtain ks where l2: "list_all2 (\<lambda>x k. get_sort_key x = Inr k) srs ks" and s: "sorted ks"
      by blast
    have len: "length ks = length srs" using l2 by (simp add: list_all2_lengthD)
    have "get_sort_key (srs ! i) = Inr (ks ! i)" "get_sort_key (srs ! j) = Inr (ks ! j)"
      using l2 h(2,3) by (auto simp: list_all2_conv_all_nth)
    then have "ks ! i = ?ka" "ks ! j = ?kb" using ka kb h(4,5) by auto
    moreover have "ks ! j \<le> ks ! i" using s ji h(2) len by (simp add: sorted_nth_mono)
    ultimately have "?kb \<le> ?ka" by (simp only:)
    then show False using less leD by blast
  qed
  have later: "ya < yb \<longrightarrow>
      ?ka < ?kb \<and>
      (\<forall>rs srs i j. sorted_reports rs = Inr srs \<and> i < length srs \<and> j < length srs \<and>
         srs ! i = a \<and> srs ! j = b \<longrightarrow> i < j)"
    using lex pos by blast
  show ?thesis using ka kb lex later by blast
qed

text \<open>
  The dashboard's \<open>get_reports\<close> compares the year texts as strings. For year texts
  of digits only and of the same length that is the numeric order, so there its key
  orders by year as \<open>get_sort_key\<close> does.
\<close>

lemma is_digit_val: "is_digit c \<Longrightarrow> 0 \<le> digit_val c \<and> digit_val c \<le> 9"
  by (auto simp: is_digit_def digit_val_def less_eq_char_def)

lemma digit_val_less: "c < d \<longleftrightarrow> digit_val c < digit_val d"
  by (simp add: digit_val_def less_char_def)

lemma is_digit_not_space:
  "is_digit c \<Longrightarrow> \<not> is_int_space c \<and> c \<noteq> CHR ''-'' \<and> c \<noteq> CHR ''+''"
  by (auto simp: is_digit_def is_int_space_def less_eq_char_def)

lemma digits_from_digit:
  "is_digit c \<Longrightarrow> digits_from acc (c # cs) = digits_from (10 * acc + digit_val c) cs"
  by (cases cs) simp_all

lemma digits_from_order:
  assumes "length xs = length ys" and "list_all is_digit xs" and "list_all is_digit ys"
    and "digits_from a xs = Some va" and "digits_from b ys = Some vb"
  shows "(a < b \<longrightarrow> va < vb) \<and> (b < a \<longrightarrow> vb < va) \<and> (a = b \<longrightarrow> (va < vb \<longleftrightarrow> xs < ys))"
  using assms
proof (induction xs ys arbitrary: a b rule: list_induct2)
  case Nil
  then show ?case by simp
next
  case (Cons x xs y ys)
  from Cons.prems have dx: "is_digit x" and dy: "is_digit y"
    and lx: "list_all is_digit xs" and ly: "list_all is_digit ys" by simp_all
  let ?a = "10 * a + digit_val x" and ?b = "10 * b + digit_val y"
  from Cons.prems dx dy have va: "digits_from ?a xs = Some va" and vb: "digits_from ?b ys = Some vb"
    by (simp_all add: digits_from_digit)
  note IH = Cons.IH[OF lx ly va vb]
  note bx = is_digit_val[OF dx] and bz = is_digit_val[OF dy]
  have "a < b \<longrightarrow> va < vb"
  proof
    assume "a < b"
    then have "?a < ?b" using bx bz by linarith
    then show "va < vb" using IH by blast
  qed
  moreover have "b < a \<longrightarrow> vb < va"
  proof
    assume "b < a"
    then have "?b < ?a" using bx bz by linarith
    then show "vb < va" using IH by blast
  qed
  moreover have "a = b \<longrightarrow> (va < vb \<longleftrightarrow> x # xs < y # ys)"
  proof
    assume ab: "a = b"
    consider "x < y" | "x = y" | "y < x" by (metis linorder_less_linear)
    then show "va < vb \<longleftrightarrow> x # xs < y # ys"
    proof cases
      case 1
      then have "?a < ?b" using ab digit_val_less[of x y] by simp
      then have "va < vb" using IH by blast
      then show ?thesis using 1 by simp
    next
      case 2
      then have "?a = ?b" using ab by simp
      then have "va < vb \<longleftrightarrow> xs < ys" using IH by blast
      then show ?thesis using 2 by simp
    next
      case 3
      then have "?b < ?a" using ab digit_val_less[of y x] by simp
      then have "vb < va" using IH by blast
      then show ?thesis using 3 by (auto simp: not_less_iff_gr_or_eq)
    qed
  qed
  ultimately show ?case by blast
qed

lemma int_strip_digits: "s \<noteq> [] \<Longrightarrow> list_all is_digit s \<Longrightarrow> int_strip s = s"
proof -
  assume s: "s \<noteq> []" and d: "list_all is_digit s"
  then have h: "\<not> is_int_space (hd s)" and l: "\<not> is_int_space (last s)"
    using is_digit_not_space by (auto simp: list_all_iff)
  from s h have 1: "dropWhile is_int_space s = s" by (cases s) auto
  from s l have "\<not> is_int_space (hd (rev s))" by (simp add: hd_rev)
  with s have 2: "dropWhile is_int_space (rev s) = rev s" by (cases "rev s") auto
  show "int_strip s = s" by (simp add: int_strip_def 1 2)
qed

lemma py_int_digits:
  assumes "s \<noteq> []" and "list_all is_digit s" and "py_int s = Inr v"
  shows "digits_from 0 s = Some v"
proof -
  from assms obtain c cs where s: "s = c # cs" by (cases s) auto
  with assms(2) have c: "is_digit c" by simp
  then have n: "c \<noteq> CHR ''-''" "c \<noteq> CHR ''+''" using is_digit_not_space by blast+
  have "digits_from 0 s = digits_from (digit_val c) cs"
    unfolding s using c by (simp add: digits_from_digit)
  moreover have "parse_digits (c # cs) = Some v"
    using assms(3) c n int_strip_digits[OF assms(1,2)]
    by (simp add: py_int_def s split: if_splits option.splits)
  ultimately show ?thesis using c by (simp add: parse_digits_def)
qed

lemma get_reports_key_same_length:
  assumes "year a \<noteq> []" and "length (year a) = length (year b)"
    and "list_all is_digit (year a)" and "list_all is_digit (year b)"
    and "py_int (year a) = Inr ya" and "py_int (year b) = Inr yb" and "ya < yb"
  shows "get_reports_key a < get_reports_key b"
proof -
  from assms(1,2) have nb: "year b \<noteq> []" by auto
  have "digits_from 0 (year a) = Some ya" "digits_from 0 (year b) = Some yb"
    using assms nb py_int_digits by blast+
  from digits_from_order[OF assms(2,3,4) this] assms(7) have "year a < year b" by simp
  then show ?thesis by (simp add: get_reports_key_def less_prod_def)
qed

text \<open>
  C1. The order by (year, month index) holds of the \<open>monthly\<close> command and fails in
  the dashboard. \<open>get_reports\<close> puts December 2023 before January 2024, but it compares
  the year as text and looks up the month token as it stands: it moves a report of
  January 2024 before a report of December 999, and it leaves February 2024 before
  January 2024 where the months are full names. \<open>sorted_reports\<close> orders each of the
  three pairs chronologically.
\<close>

theorem get_reports_year_as_text:
  "get_reports [report_of ''Jan'' ''2024'', report_of ''Dec'' ''2023''] =
     [report_of ''Dec'' ''2023'', report_of ''Jan'' ''2024''] \<and>
   sorted_reports [report_of ''Jan'' ''2024'', report_of ''Dec'' ''2023''] =
     Inr [report_of ''Dec'' ''2023'', report_of ''Jan'' ''2024''] \<and>
   get_reports [report_of ''Dec'' ''999'', report_of ''Jan'' ''2024''] =
     [report_of ''Jan'' ''2024'', report_of ''Dec'' ''999''] \<and>
   sorted_reports [report_of ''Dec'' ''999'', report_of ''Jan'' ''2024''] =
     Inr [report_of ''Dec'' ''999'', report_of ''Jan'' ''2024''] \<and>
   get_reports [report_of ''February'' ''2024'', report_of ''January'' ''2024''] =
     [report_of ''February'' ''2024'', report_of ''January'' ''2024''] \<and>
   sorted_reports [report_of ''February'' ''2024'', report_of ''January'' ''2024''] =
     Inr [report_of ''January'' ''2024'', report_of ''February'' ''2024'']"
proof -
  have g1: "get_reports [report_of ''Jan'' ''2024'', report_of ''Dec'' ''2023''] =
      [report_of ''Dec'' ''2023'', report_of ''Jan'' ''2024'']"
    and g2: "get_reports [report_of ''Dec'' ''999'', report_of ''Jan'' ''2024''] =
      [report_of ''Jan'' ''2024'', report_of ''Dec'' ''999'']"
    and g3: "get_reports [report_of ''February'' ''2024'', report_of ''January'' ''2024''] =
      [report_of ''February'' ''2024'', report_of ''January'' ''2024'']"
    by (simp_all add: get_reports_def get_reports_key_def report_of_def dict_get_def
        month_order_def less_eq_prod_def)
  have s1: "sorted_reports [report_of ''Jan'' ''2024'', report_of ''Dec'' ''2023''] =
      Inr [report_of ''Dec'' ''2023'', report_of ''Jan'' ''2024'']"
    and s2: "sorted_reports [report_of ''Dec'' ''999'', report_of ''Jan'' ''2024''] =
      Inr [report_of ''Dec'' ''999'', report_of ''Jan'' ''2024'']"
    and s3: "sorted_reports [report_of ''February'' ''2024'', report_of ''January'' ''2024''] =
      Inr [report_of ''January'' ''2024'', report_of ''February'' ''2024'']"
    by (simp_all add: sorted_reports_def py_sorted_def get_sort_key_def report_of_def str_eval
        month_order_def less_eq_prod_def)
  show ?thesis by (intro conjI g1 s1 g2 s2 g3 s3)
qed

section \<open>Month-over-month growth\<close>

text \<open>
  The growth table of \<open>main.py\<close> has one row for each pair of adjacent months: for \<open>n\<close>
  months it has \<open>n - 1\<close> rows, and row \<open>i\<close> compares month \<open>i + 1\<close> with month \<open>i\<close>: the
  percentage \<open>(curr - prev) / prev * 100\<close> when \<open>prev > 0\<close>, and \<open>N/A\<close> otherwise.
\<close>

lemma growth_data_pairs:
  "length (growth_data months tu ts n) = n - 1 \<and>
   (\<forall>i < n - 1. growth_data months tu ts n ! i =
      (months ! i @ '' to '' @ months ! Suc i,
       (if tu ! i > 0 then Some ((tu ! Suc i - tu ! i) / tu ! i * 100) else None),
       (if ts ! i > 0 then Some ((ts ! Suc i - ts ! i) / ts ! i * 100) else None)))"
  by (auto simp: growth_data_def growth_cell_def)

lemma monthly_lengths:
  assumes "monthly parsed_reports = Inr (Some (table, growth))"
  shows "2 \<le> length parsed_reports \<and> length table = length parsed_reports \<and>
         length growth = length parsed_reports - 1"
proof -
  from assms have n: "2 \<le> length parsed_reports"
    by (auto simp: monthly_def split: if_splits)
  with assms obtain srs where srs: "sorted_reports parsed_reports = Inr srs"
    and t: "table = map (\<lambda>i. (months_of srs ! i, total_units_of srs ! i, total_sales_of srs ! i))
                      [0..<length (months_of srs)]"
    and g: "growth = (if length srs \<ge> 2
                      then growth_data (months_of srs) (total_units_of srs) (total_sales_of srs)
                             (length srs)
                      else [])"
    by (auto simp: monthly_def Let_def split: sum.splits)
  have "mset srs = mset parsed_reports"
    using srs by (simp add: sorted_reports_def py_sorted_Inr(1))
  then have len: "length srs = length parsed_reports" by (rule mset_eq_length)
  have "length table = length parsed_reports" by (simp add: t months_of_def len)
  moreover have "length growth = length parsed_reports - 1"
    using n len by (simp add: g growth_data_pairs)
  ultimately show ?thesis using n by simp
qed

text \<open>
  The dashboard computes the same percentage where the earlier month is not zero.
\<close>

lemma pct_change_Suc:
  "Suc i < length xs \<Longrightarrow> pct_change xs ! Suc i = fsub (fdiv (xs ! Suc i) (xs ! i)) 1"
  by (cases xs) auto

lemma Sales_Growth_nonzero_base:
  assumes "Suc i < length xs" and "xs ! i \<noteq> 0"
  shows "\<exists>col. Sales_Growth xs = Some col \<and>
           col ! Suc i = Fin ((xs ! Suc i - xs ! i) / xs ! i * 100)"
proof -
  have "ftimes100 (pct_change xs ! Suc i) = Fin ((xs ! Suc i - xs ! i) / xs ! i * 100)"
    using assms by (simp add: pct_change_Suc fdiv_def fsub_def ftimes100_def field_simps)
  moreover have "length (pct_change xs) = length xs" by (cases xs) auto
  ultimately show ?thesis using assms(1) by (simp add: Sales_Growth_def)
qed

text \<open>
  C2. Two reports, January 2024 with net sales 0 and February 2024 with net sales 50.
  In the dashboard the monthly sums are 0 and 50, the growth column holds \<open>NaN\<close> for
  January and \<open>inf\<close> for February, and the table shows the second as a number, not as
  \<open>N/A\<close>; there are as many cells as months. On the same reports the \<open>monthly\<close>
  command of \<open>main.py\<close> yields one growth row, with \<open>N/A\<close> for both rates.
\<close>

theorem growth_from_zero_base:
  "(\<exists>df. get_combined_data zero_then_fifty = Inr df \<and>
         monthly_data df = [(''Jan 2024'', 0, 0), (''Feb 2024'', 50, 10)] \<and>
         Sales_Growth (map (\<lambda>row. fst (snd row)) (monthly_data df)) = Some [NaN, PInf]) \<and>
   map display_growth [NaN, PInf] = [None, Some PInf] \<and>
   monthly zero_then_fifty =
     Inr (Some ([(''Jan 2024'', 0, 0), (''Feb 2024'', 10, 50)],
                [(''Jan 2024 to Feb 2024'', None, None)]))"
proof -
  have d: "\<exists>df. get_combined_data zero_then_fifty = Inr df \<and>
      monthly_data df = [(''Jan 2024'', 0, 0), (''Feb 2024'', 50, 10)]"
    by (simp add: zero_then_fifty_def get_combined_data_def combine_report_def str_eval
        month_order_str_def row_of_def monthly_data_def groupby_Month_def
        get_month_year_key_def month_num_def)
  have g: "Sales_Growth [0, 50] = Some [NaN, PInf]"
    by (simp add: Sales_Growth_def fdiv_def fsub_def ftimes100_def)
  have s: "map display_growth [NaN, PInf] = [None, Some PInf]"
    by (simp add: display_growth_def)
  have m: "monthly zero_then_fifty =
      Inr (Some ([(''Jan 2024'', 0, 0), (''Feb 2024'', 10, 50)],
                 [(''Jan 2024 to Feb 2024'', None, None)]))"
    by (simp add: monthly_def zero_then_fifty_def sorted_reports_def py_sorted_def
        get_sort_key_def str_eval month_order_def less_eq_prod_def months_of_def
        month_label_def total_units_of_def total_sales_of_def filter_total_def row_of_def
        growth_data_def growth_cell_def numeral_2_eq_2)
  from d obtain df where df: "get_combined_data zero_then_fifty = Inr df"
    "monthly_data df = [(''Jan 2024'', 0, 0), (''Feb 2024'', 50, 10)]"
    by blast
  have "Sales_Growth (map (\<lambda>row. fst (snd row)) (monthly_data df)) = Some [NaN, PInf]"
    using g by (simp add: df(2))
  with df s m show ?thesis by blast
qed

section \<open>Average price\<close>

text \<open>
  C3, as the code has it. The Dashboard Overview shows the average price
  \<open>total_sales / total_units\<close> when \<open>total_units > 0\<close> and the number 0 otherwise. For a
  product group with \<open>Sold\<close> other than zero \<open>Avg Price\<close> is \<open>Net Sales / Sold\<close>, and for a
  group with zero \<open>Sold\<close> and zero \<open>Net Sales\<close> it is \<open>NaN\<close>, which the tables show as
  \<open>N/A\<close>.
\<close>

theorem avg_price_cases:
  "(0 < sum_list (map Sold df) \<longrightarrow>
      avg_price df = sum_list (map Net_Sales df) / sum_list (map Sold df)) \<and>
   (\<not> 0 < sum_list (map Sold df) \<longrightarrow> avg_price df = 0) \<and>
   (\<forall>row \<in> set (product_perf df) \<union> set (product_data df).
      (Sold row \<noteq> 0 \<longrightarrow> Avg_Price row = Fin (Net_Sales row / Sold row)) \<and>
      (Sold row = 0 \<and> Net_Sales row = 0 \<longrightarrow>
         Avg_Price row = NaN \<and> display_price (Avg_Price row) = None))"
  by (auto simp: avg_price_def Let_def product_perf_def product_data_def with_Avg_Price_def
      fdiv_def display_price_def split: if_splits)

theorem avg_price_cases_witness:
  "0 < sum_list (map Sold [row_of ''Pod'' ''Pods'' 4 20, row_of ''Kit'' ''Kits'' 0 0]) \<and>
   avg_price [row_of ''Pod'' ''Pods'' 4 20, row_of ''Kit'' ''Kits'' 0 0] = 5 \<and>
   \<not> 0 < sum_list (map Sold [row_of ''Kit'' ''Kits'' 0 0]) \<and>
   avg_price [row_of ''Kit'' ''Kits'' 0 0] = 0 \<and>
   map Avg_Price (product_perf [row_of ''Pod'' ''Pods'' 4 20, row_of ''Kit'' ''Kits'' 0 0]) =
     [NaN, Fin 5] \<and>
   map (display_price \<circ> Avg_Price)
     (product_data [row_of ''Pod'' ''Pods'' 4 20, row_of ''Kit'' ''Kits'' 0 0]) =
     [None, Some (Fin 5)]"
proof -
  have p: "product_perf [row_of ''Pod'' ''Pods'' 4 20, row_of ''Kit'' ''Kits'' 0 0] =
      [with_Avg_Price (row_of ''Kit'' ''Kits'' 0 0), with_Avg_Price (row_of ''Pod'' ''Pods'' 4 20)]"
    by (simp add: product_perf_def groupby_Name_def row_of_def)
  have d: "product_data [row_of ''Pod'' ''Pods'' 4 20, row_of ''Kit'' ''Kits'' 0 0] =
      [with_Avg_Price (row_of ''Kit'' ''Kits'' 0 0), with_Avg_Price (row_of ''Pod'' ''Pods'' 4 20)]"
    by (simp add: product_data_def groupby_Name_Category_def row_of_def less_eq_prod_def)
  have s: "Sold (with_Avg_Price (row_of ''Pod'' ''Pods'' 4 20)) = 4"
    "Net_Sales (with_Avg_Price (row_of ''Pod'' ''Pods'' 4 20)) = 20"
    "Sold (with_Avg_Price (row_of ''Kit'' ''Kits'' 0 0)) = 0"
    "Net_Sales (with_Avg_Price (row_of ''Kit'' ''Kits'' 0 0)) = 0"
    by (simp_all add: with_Avg_Price_def row_of_def)
  have u1: "sum_list (map Sold [row_of ''Pod'' ''Pods'' 4 20, row_of ''Kit'' ''Kits'' 0 0]) = 4"
    and n1: "sum_list (map Net_Sales [row_of ''Pod'' ''Pods'' 4 20, row_of ''Kit'' ''Kits'' 0 0]) = 20"
    and u0: "sum_list (map Sold [row_of ''Kit'' ''Kits'' 0 0]) = 0"
    by (simp_all add: row_of_def)
  note w1 = avg_price_cases[of "[row_of ''Pod'' ''Pods'' 4 20, row_of ''Kit'' ''Kits'' 0 0]"]
  note w0 = avg_price_cases[of "[row_of ''Kit'' ''Kits'' 0 0]"]
  have a1: "avg_price [row_of ''Pod'' ''Pods'' 4 20, row_of ''Kit'' ''Kits'' 0 0] = 5"
    using w1[unfolded u1 n1] by simp
  have a0: "avg_price [row_of ''Kit'' ''Kits'' 0 0] = 0"
    using w0[unfolded u0] by simp
  note rows = w1[THEN conjunct2, THEN conjunct2, rule_format]
  have kit: "Avg_Price (with_Avg_Price (row_of ''Kit'' ''Kits'' 0 0)) = NaN \<and>
      display_price (Avg_Price (with_Avg_Price (row_of ''Kit'' ''Kits'' 0 0))) = None"
    using rows[of "with_Avg_Price (row_of ''Kit'' ''Kits'' 0 0)"]
    by (simp add: p s display_price_def)
  have pod: "Avg_Price (with_Avg_Price (row_of ''Pod'' ''Pods'' 4 20)) = Fin 5"
    using rows[of "with_Avg_Price (row_of ''Pod'' ''Pods'' 4 20)"] by (simp add: p s)
  have c1: "0 < sum_list (map Sold [row_of ''Pod'' ''Pods'' 4 20, row_of ''Kit'' ''Kits'' 0 0])"
    unfolding u1 by simp
  have c0: "\<not> 0 < sum_list (map Sold [row_of ''Kit'' ''Kits'' 0 0])"
    unfolding u0 by simp
  have cp: "map Avg_Price
      (product_perf [row_of ''Pod'' ''Pods'' 4 20, row_of ''Kit'' ''Kits'' 0 0]) = [NaN, Fin 5]"
    using kit pod by (simp add: p)
  have cd: "map (display_price \<circ> Avg_Price)
      (product_data [row_of ''Pod'' ''Pods'' 4 20, row_of ''Kit'' ''Kits'' 0 0]) =
      [None, Some (Fin 5)]"
    using kit pod by (simp add: d display_price_def)
  show ?thesis by (intro conjI c1 a1 c0 a0 cp cd)
qed

text \<open>
  The claim as the specification words it (never the number 0 for zero units) fails:
  with no unit sold the overview's average price is the number 0.
\<close>

theorem avg_price_zero_units_counterexample:
  "sum_list (map Sold [row_of ''Kit'' ''Kits'' 0 0]) = 0 \<and>
   avg_price [row_of ''Kit'' ''Kits'' 0 0] = 0"
  by (simp add: avg_price_def row_of_def)

section \<open>The \<open>TOTAL\<close> rows\<close>

lemma combine_report_rows:
  "combine_report r = Inr df \<Longrightarrow>
     map sales_row.truncate df = filter (\<lambda>row. Category_Name row \<noteq> ''TOTAL'') (data r)"
  by (auto simp: combine_report_def Let_def sales_row.truncate_def comp_def split: sum.splits
      intro!: map_idI)

lemma combine_report_total:
  "py_int (year r) = Inr y \<Longrightarrow> \<exists>df. combine_report r = Inr df"
  using py_int_month_order_str[of "month r"] by (auto simp: combine_report_def Let_def)

lemma get_combined_data_rows:
  assumes "get_combined_data rs = Inr combined"
  shows "map sales_row.truncate combined = all_data_filtered rs"
proof -
  from assms obtain dfs where dfs: "map_result combine_report rs = Inr dfs"
    and c: "combined = concat dfs"
    by (auto simp: get_combined_data_def split: sum.splits)
  from map_result_Inr[OF dfs]
  have "list_all2 (\<lambda>r df. map sales_row.truncate df =
          filter (\<lambda>row. Category_Name row \<noteq> ''TOTAL'') (data r)) rs dfs"
    by (rule list_all2_mono) (simp add: combine_report_rows)
  then have "map (map sales_row.truncate) dfs =
      map (\<lambda>r. filter (\<lambda>row. Category_Name row \<noteq> ''TOTAL'') (data r)) rs"
    by (induction rule: list_all2_induct) auto
  then show ?thesis
    by (simp add: c all_data_filtered_def all_data_def map_concat filter_concat comp_def)
qed

text \<open>
  C5. The rows kept are exactly the rows whose category is not the string \<open>TOTAL\<close>: a
  row is in the filtered data of \<open>main.py\<close> if and only if it is a row of a report and
  its category differs from \<open>TOTAL\<close>, and each such row is kept as often as it occurs.
  The combined frame of the dashboard holds the same rows in the same order, and it is
  built whenever the year of every report is a number. The monthly totals of \<open>main.py\<close>
  are taken over the rows kept by the same test.
\<close>

theorem total_rows_dropped:
  "(\<forall>row. row \<in> set (all_data_filtered rs) \<longleftrightarrow>
          row \<in> set (all_data rs) \<and> Category_Name row \<noteq> ''TOTAL'') \<and>
   (\<forall>row. Category_Name row \<noteq> ''TOTAL'' \<longrightarrow>
          count (mset (all_data_filtered rs)) row = count (mset (all_data rs)) row) \<and>
   (\<forall>combined. get_combined_data rs = Inr combined \<longrightarrow>
          map sales_row.truncate combined = all_data_filtered rs) \<and>
   ((\<forall>r \<in> set rs. \<exists>y. py_int (year r) = Inr y) \<longrightarrow>
          (\<exists>combined. get_combined_data rs = Inr combined)) \<and>
   (\<forall>row. row \<in> set (filter_total df) \<longleftrightarrow>
          row \<in> set df \<and> Category_Name row \<noteq> ''TOTAL'') \<and>
   (\<forall>row. Category_Name row \<noteq> ''TOTAL'' \<longrightarrow>
          count (mset (filter_total df)) row = count (mset df) row)"
proof (intro conjI allI impI)
  show "\<And>row. row \<in> set (filter_total df) \<longleftrightarrow>
          row \<in> set df \<and> Category_Name row \<noteq> ''TOTAL''"
    by (auto simp: filter_total_def)
  show "\<And>row. Category_Name row \<noteq> ''TOTAL'' \<Longrightarrow>
          count (mset (filter_total df)) row = count (mset df) row"
    by (simp add: filter_total_def)
  show "\<And>row. row \<in> set (all_data_filtered rs) \<longleftrightarrow>
          row \<in> set (all_data rs) \<and> Category_Name row \<noteq> ''TOTAL''"
    by (auto simp: all_data_filtered_def)
  show "\<And>row. Category_Name row \<noteq> ''TOTAL'' \<Longrightarrow>
          count (mset (all_data_filtered rs)) row = count (mset (all_data rs)) row"
    by (simp add: all_data_filtered_def)
  show "\<And>combined. get_combined_data rs = Inr combined \<Longrightarrow>
          map sales_row.truncate combined = all_data_filtered rs"
    by (rule get_combined_data_rows)
  assume "\<forall>r \<in> set rs. \<exists>y. py_int (year r) = Inr y"
  then have "\<forall>r \<in> set rs. \<exists>df. combine_report r = Inr df"
    using combine_report_total by blast
  from map_result_total[OF this] show "\<exists>combined. get_combined_data rs = Inr combined"
    by (auto simp: get_combined_data_def)
qed

text \<open>
  A report with the categories \<open>Subtotal\<close>, \<open>TOTAL\<close> and \<open>total\<close>: only the row of
  category \<open>TOTAL\<close> is dropped.
\<close>

theorem total_rows_dropped_witness:
  "all_data_filtered
     [\<lparr>month = ''Jan'', year = ''2024'',
       data = [row_of ''Pod'' ''Subtotal'' 1 2, row_of ''All'' ''TOTAL'' 3 4,
               row_of ''Kit'' ''total'' 5 6]\<rparr>] =
     [row_of ''Pod'' ''Subtotal'' 1 2, row_of ''Kit'' ''total'' 5 6] \<and>
   (\<exists>combined.
      get_combined_data
        [\<lparr>month = ''Jan'', year = ''2024'',
          data = [row_of ''Pod'' ''Subtotal'' 1 2, row_of ''All'' ''TOTAL'' 3 4,
                  row_of ''Kit'' ''total'' 5 6]\<rparr>] = Inr combined \<and>
      map sales_row.truncate combined =
        [row_of ''Pod'' ''Subtotal'' 1 2, row_of ''Kit'' ''total'' 5 6]) \<and>
   filter_total [row_of ''Pod'' ''Subtotal'' 1 2, row_of ''All'' ''TOTAL'' 3 4,
                 row_of ''Kit'' ''total'' 5 6] =
     [row_of ''Pod'' ''Subtotal'' 1 2, row_of ''Kit'' ''total'' 5 6] \<and>
   total_units_of
     [\<lparr>month = ''Jan'', year = ''2024'',
       data = [row_of ''Pod'' ''Subtotal'' 1 2, row_of ''All'' ''TOTAL'' 3 4,
               row_of ''Kit'' ''total'' 5 6]\<rparr>] = [6]"
proof -
  let ?rs = "[\<lparr>month = ''Jan'', year = ''2024'',
       data = [row_of ''Pod'' ''Subtotal'' 1 2, row_of ''All'' ''TOTAL'' 3 4,
               row_of ''Kit'' ''total'' 5 6]\<rparr>]"
  have f: "all_data_filtered ?rs = [row_of ''Pod'' ''Subtotal'' 1 2, row_of ''Kit'' ''total'' 5 6]"
    by (simp add: all_data_filtered_def all_data_def row_of_def)
  have y: "\<forall>r \<in> set ?rs. \<exists>y. py_int (year r) = Inr y"
    by (simp add: str_eval)
  note t = total_rows_dropped[of ?rs "[]"]
  from t y obtain combined where c: "get_combined_data ?rs = Inr combined" by blast
  with t have "map sales_row.truncate combined = all_data_filtered ?rs" by blast
  with c f have g: "\<exists>combined. get_combined_data ?rs = Inr combined \<and>
      map sales_row.truncate combined =
        [row_of ''Pod'' ''Subtotal'' 1 2, row_of ''Kit'' ''total'' 5 6]"
    by simp
  have ft: "filter_total [row_of ''Pod'' ''Subtotal'' 1 2, row_of ''All'' ''TOTAL'' 3 4,
      row_of ''Kit'' ''total'' 5 6] =
      [row_of ''Pod'' ''Subtotal'' 1 2, row_of ''Kit'' ''total'' 5 6]"
    by (simp add: filter_total_def row_of_def)
  have tu: "total_units_of ?rs = [6]"
    by (simp add: total_units_of_def filter_total_def row_of_def)
  show ?thesis by (intro conjI f g ft tu)
qed

section \<open>Month tokens and the keys of month labels\<close>

text \<open>
  A token is recognised by a dictionary exactly when it is one of its keys, and every
  key starts with a capital letter.
\<close>

lemma month_num_recognised:
  "dict_get month_num m ''00'' \<noteq> ''00'' \<longleftrightarrow> m \<in> fst ` set month_num"
proof (cases "m \<in> fst ` set month_num")
  case True
  then have "''00'' < dict_get month_num m ''00''" by (rule month_num_present)
  then have "dict_get month_num m ''00'' \<noteq> ''00''" by (rule less_imp_neq[symmetric])
  with True show ?thesis by simp
next
  case False
  then have "dict_get month_num m ''00'' = ''00''" by (rule dict_get_absent)
  with False show ?thesis by simp
qed

lemma month_order_recognised:
  "dict_get month_order k 0 \<noteq> 0 \<longleftrightarrow> k \<in> fst ` set month_order"
proof -
  have "\<forall>k \<in> fst ` set month_order. dict_get month_order k 0 \<noteq> 0"
    by (simp add: dict_get_def month_order_def)
  then have p: "k \<in> fst ` set month_order \<Longrightarrow> dict_get month_order k 0 \<noteq> 0" by blast
  have a: "k \<notin> fst ` set month_order \<Longrightarrow> dict_get month_order k 0 = 0"
    by (rule dict_get_absent)
  show ?thesis using p a by blast
qed

lemma month_keys_upper:
  "\<forall>k \<in> fst ` set month_num. k \<noteq> [] \<and> is_upper (hd k)"
  "\<forall>k \<in> fst ` set month_order. k \<noteq> [] \<and> is_upper (hd k)"
  by (simp_all add: month_num_def month_order_def is_upper_def)

text \<open>
  C6, as the code has it. The month dictionaries are keyed by the capitalised names
  and no letter case is folded. For each of the twelve months the three-letter token
  and the full name are both recognised and give the same month number, so with the
  same year text they give the same key, in \<open>get_month_year_key\<close> and in
  \<open>get_sort_key\<close>. \<open>get_month_year_key\<close> recognises a token \<open>m\<close> exactly when \<open>m\<close> is
  one of the 24 capitalised names; \<open>get_sort_key\<close> recognises \<open>m\<close> exactly when the
  first three characters of \<open>m\<close> are one of the 12 capitalised three-letter tokens. A
  token that does not start with a capital letter is recognised by neither: its month
  number is \<open>00\<close>, respectively \<open>0\<close>. (The last two parts say where the
  functions look the token up.)
\<close>

theorem month_forms_agree:
  assumes "(abbr, full) \<in> set month_names"
  shows "get_month_year_key (abbr @ '' '' @ y) = get_month_year_key (full @ '' '' @ y) \<and>
         dict_get month_num abbr ''00'' = dict_get month_num full ''00'' \<and>
         dict_get month_num abbr ''00'' \<noteq> ''00'' \<and>
         get_sort_key \<lparr>month = abbr, year = y, data = d\<rparr> =
           get_sort_key \<lparr>month = full, year = y, data = d\<rparr> \<and>
         dict_get month_order (take 3 full) 0 = dict_get month_order (take 3 abbr) 0 \<and>
         dict_get month_order (take 3 abbr) 0 \<noteq> 0 \<and>
         (dict_get month_num m ''00'' \<noteq> ''00'' \<longleftrightarrow>
            m \<in> set (map fst month_names) \<union> set (map snd month_names)) \<and>
         (dict_get month_order (take 3 m) 0 \<noteq> 0 \<longleftrightarrow> take 3 m \<in> set (map fst month_names)) \<and>
         (m = [] \<or> \<not> is_upper (hd m) \<longrightarrow>
            dict_get month_num m ''00'' = ''00'' \<and> dict_get month_order (take 3 m) 0 = 0) \<and>
         (str_split s = [m, y] \<longrightarrow>
            get_month_year_key s = y @ ''-'' @ dict_get month_num m ''00'') \<and>
         (py_int y = Inr n \<longrightarrow>
            get_sort_key \<lparr>month = m, year = y, data = d\<rparr> =
              Inr (n, dict_get month_order (take 3 m) 0))"
proof -
  from assms month_names_tokens
  have tok: "abbr \<noteq> []" "full \<noteq> []" "\<forall>c \<in> set abbr. \<not> is_space c"
    "\<forall>c \<in> set full. \<not> is_space c"
    by blast+
  have sa: "str_split (abbr @ '' '' @ y) = abbr # str_split y"
    and sf: "str_split (full @ '' '' @ y) = full # str_split y"
    using tok str_split_token_space by auto
  from assms month_names_month_num
  have num: "dict_get month_num abbr ''00'' = dict_get month_num full ''00''"
    "dict_get month_num abbr ''00'' \<noteq> ''00''"
    by blast+
  from assms month_names_take3 have t3: "take 3 full = take 3 abbr" by blast
  from assms month_names_month_order
  have ord: "dict_get month_order (take 3 abbr) 0 \<noteq> 0" by blast
  have k: "get_month_year_key (abbr @ '' '' @ y) = get_month_year_key (full @ '' '' @ y)"
    unfolding get_month_year_key_def sa sf using num by (simp add: Let_def)
  have g: "get_sort_key \<lparr>month = abbr, year = y, data = d\<rparr> =
      get_sort_key \<lparr>month = full, year = y, data = d\<rparr>"
    using t3 by (simp add: get_sort_key_def split: sum.splits)
  have rn: "dict_get month_num m ''00'' \<noteq> ''00'' \<longleftrightarrow>
      m \<in> set (map fst month_names) \<union> set (map snd month_names)"
    unfolding month_num_recognised month_num_keys[symmetric] by simp
  have ro: "dict_get month_order (take 3 m) 0 \<noteq> 0 \<longleftrightarrow> take 3 m \<in> set (map fst month_names)"
    unfolding month_order_recognised month_order_keys[symmetric] by simp
  have lo: "dict_get month_num m ''00'' = ''00'' \<and> dict_get month_order (take 3 m) 0 = 0"
    if h: "m = [] \<or> \<not> is_upper (hd m)"
  proof -
    have "m \<notin> fst ` set month_num" using h month_keys_upper(1) by blast
    moreover have "take 3 m \<notin> fst ` set month_order"
    proof
      assume "take 3 m \<in> fst ` set month_order"
      then have "take 3 m \<noteq> []" "is_upper (hd (take 3 m))" using month_keys_upper(2) by blast+
      then have "m \<noteq> []" "is_upper (hd m)" by (auto simp: hd_take)
      with h show False by blast
    qed
    ultimately show ?thesis using month_num_recognised[of m] month_order_recognised[of "take 3 m"]
      by blast
  qed
  have fk: "get_month_year_key s = y @ ''-'' @ dict_get month_num m ''00''"
    if "str_split s = [m, y]"
    using that by (simp add: get_month_year_key_def)
  have fs: "get_sort_key \<lparr>month = m, year = y, data = d\<rparr> =
      Inr (n, dict_get month_order (take 3 m) 0)"
    if "py_int y = Inr n"
    using that by (simp add: get_sort_key_def)
  show ?thesis using k num g t3 ord rn ro lo fk fs by simp
qed

text \<open>
  At January, and at the tokens \<open>jan\<close> (no capital letter) and \<open>Janet\<close> (recognised by
  \<open>get_sort_key\<close> through its first three characters only).
\<close>

theorem month_forms_agree_witness:
  "(''Jan'', ''January'') \<in> set month_names \<and>
   get_month_year_key ''Jan 2024'' = ''2024-01'' \<and>
   get_month_year_key ''January 2024'' = ''2024-01'' \<and>
   get_sort_key (report_of ''Jan'' ''2024'') = Inr (2024, 1) \<and>
   get_sort_key (report_of ''January'' ''2024'') = Inr (2024, 1) \<and>
   \<not> is_upper (hd ''jan'') \<and>
   dict_get month_num ''jan'' ''00'' = ''00'' \<and>
   dict_get month_order (take 3 ''jan'') 0 = 0 \<and>
   str_split ''jan 2024'' = [''jan'', ''2024''] \<and>
   get_month_year_key ''jan 2024'' = ''2024-00'' \<and>
   take 3 ''Janet'' \<in> set (map fst month_names) \<and>
   dict_get month_order (take 3 ''Janet'') 0 \<noteq> 0 \<and>
   py_int ''2024'' = Inr 2024 \<and>
   get_sort_key (report_of ''Janet'' ''2024'') = Inr (2024, 1) \<and>
   ''Janet'' \<notin> set (map fst month_names) \<union> set (map snd month_names) \<and>
   dict_get month_num ''Janet'' ''00'' = ''00''"
proof -
  have m: "(''Jan'', ''January'') \<in> set month_names" by (simp add: month_names_def)
  have k: "get_month_year_key ''Jan 2024'' = ''2024-01''"
    by (simp add: get_month_year_key_def str_split_def is_space_def dict_get_def month_num_def)
  have g: "get_sort_key (report_of ''Jan'' ''2024'') = Inr (2024, 1)"
    by (simp add: get_sort_key_def report_of_def str_eval month_order_def)
  note w = month_forms_agree[OF m, where y = "''2024''" and d = "[]"]
  note wj = w[where m = "''jan''" and s = "''jan 2024''" and n = 2024]
  note wt = w[where m = "''Janet''" and s = "[]" and n = 2024]
  have k': "get_month_year_key ''January 2024'' = ''2024-01''"
    using wj k by simp
  have g': "get_sort_key (report_of ''January'' ''2024'') = Inr (2024, 1)"
    using wj g by (simp add: report_of_def)
  have u: "\<not> is_upper (hd ''jan'')" by (simp add: is_upper_def)
  have j: "dict_get month_num ''jan'' ''00'' = ''00''"
    "dict_get month_order (take 3 ''jan'') 0 = 0"
    using wj u by blast+
  have sj: "str_split ''jan 2024'' = [''jan'', ''2024'']"
    by (simp add: str_split_def is_space_def)
  have kj: "get_month_year_key ''jan 2024'' = ''2024-00''"
    using wj sj j(1) by simp
  have t: "take 3 ''Janet'' \<in> set (map fst month_names)"
    and n: "''Janet'' \<notin> set (map fst month_names) \<union> set (map snd month_names)"
    by (simp_all add: month_names_def)
  have t': "dict_get month_order (take 3 ''Janet'') 0 \<noteq> 0"
    using wt t by blast
  have y: "py_int ''2024'' = Inr 2024" by (simp add: str_eval)
  have "dict_get month_order (take 3 ''Janet'') 0 = 1"
    by (simp add: dict_get_def month_order_def)
  moreover have "get_sort_key \<lparr>month = ''Janet'', year = ''2024'', data = []\<rparr> =
      Inr (2024, dict_get month_order (take 3 ''Janet'') 0)"
    using wt y by blast
  ultimately have gt: "get_sort_key (report_of ''Janet'' ''2024'') = Inr (2024, 1)"
    by (simp add: report_of_def)
  have n': "dict_get month_num ''Janet'' ''00'' = ''00''"
    using wt n by blast
  show ?thesis by (intro conjI m k k' g g' u j sj kj t t' y gt n n')
qed

text \<open>
  The lookup is not case-insensitive: the lower-case token \<open>jan\<close> is not recognised and
  gets the month number of an unknown month, so its key differs from the key of
  \<open>January\<close>.
\<close>

theorem month_case_counterexample:
  "get_month_year_key ''jan 2024'' = ''2024-00'' \<and>
   get_month_year_key ''January 2024'' = ''2024-01'' \<and>
   get_sort_key (report_of ''jan'' ''2024'') = Inr (2024, 0) \<and>
   get_sort_key (report_of ''January'' ''2024'') = Inr (2024, 1)"
proof -
  have "get_month_year_key ''jan 2024'' = ''2024-00''"
    and "get_month_year_key ''January 2024'' = ''2024-01''"
    by (simp_all add: get_month_year_key_def str_split_def is_space_def dict_get_def
        month_num_def)
  moreover have "get_sort_key (report_of ''jan'' ''2024'') = Inr (2024, 0)"
    and "get_sort_key (report_of ''January'' ''2024'') = Inr (2024, 1)"
    by (simp_all add: get_sort_key_def report_of_def str_eval month_order_def)
  ultimately show ?thesis by simp
qed

text \<open>
  C10. \<open>get_month_year_key\<close> is a total function from strings to strings: no operation
  in its body can raise on a string. A label that does not split into exactly two
  tokens has the empty key, which is less than the key of every label of two tokens.
  A label of two tokens whose month is not a key of the dictionary has the key
  \<open><year>-00\<close>, which is less than the key of every label with the same year text and
  a month of the dictionary.
\<close>

theorem get_month_year_key_total:
  "(length (str_split s) \<noteq> 2 \<longrightarrow>
      get_month_year_key s = '''' \<and>
      (\<forall>t. length (str_split t) = 2 \<longrightarrow> get_month_year_key s < get_month_year_key t)) \<and>
   (\<forall>m y. str_split s = [m, y] \<and> m \<notin> fst ` set month_num \<longrightarrow>
      get_month_year_key s = y @ ''-00'' \<and>
      (\<forall>t m'. str_split t = [m', y] \<and> m' \<in> fst ` set month_num \<longrightarrow>
         get_month_year_key s < get_month_year_key t))"
proof (intro conjI impI allI)
  assume "length (str_split s) \<noteq> 2"
  then show e: "get_month_year_key s = ''''"
    by (simp add: get_month_year_key_def Let_def)
  fix t assume "length (str_split t) = 2"
  then have "get_month_year_key t \<noteq> []" by (simp add: get_month_year_key_def Let_def)
  then show "get_month_year_key s < get_month_year_key t"
    using e by (cases "get_month_year_key t") auto
next
  fix m y assume h: "str_split s = [m, y] \<and> m \<notin> fst ` set month_num"
  then show k: "get_month_year_key s = y @ ''-00''"
    by (simp add: get_month_year_key_def Let_def dict_get_absent)
  fix t m' assume t: "str_split t = [m', y] \<and> m' \<in> fst ` set month_num"
  then have "get_month_year_key t = y @ ''-'' @ dict_get month_num m' ''00''"
    by (simp add: get_month_year_key_def Let_def)
  moreover have "''00'' < dict_get month_num m' ''00''" using t month_num_present by blast
  ultimately show "get_month_year_key s < get_month_year_key t"
    using k by (simp add: append_less_append)
qed

theorem get_month_year_key_total_witness:
  "length (str_split ''Jan 2024 final'') \<noteq> 2 \<and>
   get_month_year_key ''Jan 2024 final'' = '''' \<and>
   get_month_year_key ''Jan 2024 final'' < get_month_year_key ''Jan 2024'' \<and>
   str_split ''Smarch 2024'' = [''Smarch'', ''2024''] \<and>
   ''Smarch'' \<notin> fst ` set month_num \<and>
   get_month_year_key ''Smarch 2024'' = ''2024-00'' \<and>
   get_month_year_key ''Smarch 2024'' < get_month_year_key ''Jan 2024''"
proof -
  have s3: "length (str_split ''Jan 2024 final'') \<noteq> 2"
    and s2: "length (str_split ''Jan 2024'') = 2"
    and sm: "str_split ''Smarch 2024'' = [''Smarch'', ''2024'']"
    and sj: "str_split ''Jan 2024'' = [''Jan'', ''2024'']"
    by (simp_all add: str_split_def is_space_def)
  have nm: "''Smarch'' \<notin> fst ` set month_num" and jm: "''Jan'' \<in> fst ` set month_num"
    by (simp_all add: month_num_def)
  note w3 = get_month_year_key_total[of "''Jan 2024 final''", THEN conjunct1, rule_format, OF s3]
  note wm = get_month_year_key_total[of "''Smarch 2024''", THEN conjunct2, rule_format,
      of "''Smarch''" "''2024''", OF conjI[OF sm nm]]
  have a: "get_month_year_key ''Jan 2024 final'' = ''''" using w3 by blast
  have b: "get_month_year_key ''Jan 2024 final'' < get_month_year_key ''Jan 2024''"
    using w3 s2 by blast
  have c: "get_month_year_key ''Smarch 2024'' = ''2024-00''" using wm by simp
  have d: "get_month_year_key ''Smarch 2024'' < get_month_year_key ''Jan 2024''"
    using wm sj jm by blast
  show ?thesis by (intro conjI s3 a b sm nm c d)
qed

section \<open>Stock status\<close>

subsection \<open>Rounding\<close>

lemma float_rounding_mono: "float_rounding fl \<Longrightarrow> x \<le> y \<Longrightarrow> fl x \<le> fl y"
  by (simp add: float_rounding_def)

lemma float_rounding_fix:
  "float_rounding fl \<Longrightarrow> \<bar>n\<bar> \<le> 2 ^ 53 \<Longrightarrow> e \<le> 1022 \<Longrightarrow>
     fl (real_of_int n / 2 ^ e) = real_of_int n / 2 ^ e"
  by (simp add: float_rounding_def)

lemma float_rounding_int:
  "float_rounding fl \<Longrightarrow> \<bar>n\<bar> \<le> 2 ^ 53 \<Longrightarrow> fl (real_of_int n) = real_of_int n"
  using float_rounding_fix[of fl n 0] by simp

lemma float_rounding_unrounded: "float_rounding unrounded"
  by (simp add: float_rounding_def unrounded_def)

lemma float_rounding_consts:
  assumes "float_rounding fl"
  shows "fl 0 = 0" and "fl 1 = 1" and "fl 2 = 2" and "fl (1 / 4) = 1 / 4" and "fl (1 / 2) = 1 / 2"
proof -
  show "fl 0 = 0" using float_rounding_int[OF assms, of 0] by simp
  show "fl 1 = 1" using float_rounding_int[OF assms, of 1] by simp
  show "fl 2 = 2" using float_rounding_int[OF assms, of 2] by simp
  show "fl (1 / 4) = 1 / 4" using float_rounding_fix[OF assms, of 1 2] by simp
  show "fl (1 / 2) = 1 / 2" using float_rounding_fix[OF assms, of 1 1] by simp
qed



lemma ratio_le_one:
  assumes fr: "float_rounding fl" and m: "0 < m" and q: "q \<le> m"
  shows "fl (real_of_int q / real_of_int m) \<le> 1"
proof -
  have "real_of_int q / real_of_int m \<le> 1" using m q by simp
  from float_rounding_mono[OF fr this] show ?thesis by (simp add: float_rounding_consts[OF fr])
qed

subsection \<open>The two classifiers\<close>

lemma stock_status_Inl:
  "stock_status fl p = Inl e \<longleftrightarrow> e = ZeroDivisionError \<and> min_stock p = 0"
  by (auto simp: stock_status_def Let_def)

lemma stock_status_Inr:
  "min_stock p \<noteq> 0 \<Longrightarrow>
     \<exists>s. stock_status fl p = Inr s \<and> s \<in> set [''OUT OF STOCK'', ''CRITICAL'', ''LOW'', ''WARNING'']"
  by (simp add: stock_status_def Let_def)

lemma stock_status_not_OK: "stock_status fl p \<noteq> Inr ''OK''"
  by (simp add: stock_status_def Let_def)

lemma csv_status_tier:
  "csv_status fl p \<in> set [''OUT OF STOCK'', ''CRITICAL'', ''LOW'', ''WARNING'']"
  by (simp add: csv_status_def)

lemma csv_status_not_OK: "csv_status fl p \<noteq> ''OK''"
  by (simp add: csv_status_def)

lemma status_lines_complete:
  "\<forall>r \<in> set rows. min_stock r \<noteq> 0 \<Longrightarrow>
     snd (status_lines fl rows) = None \<and> map fst (fst (status_lines fl rows)) = rows"
proof (induction rows)
  case Nil
  show ?case by simp
next
  case (Cons p ps)
  from Cons.prems have "min_stock p \<noteq> 0" by simp
  then obtain s where s: "stock_status fl p = Inr s" using stock_status_Inr by blast
  from Cons have "snd (status_lines fl ps) = None \<and> map fst (fst (status_lines fl ps)) = ps"
    by simp
  then show ?case using s by (simp add: case_prod_beta)
qed

lemma status_lines_status:
  "(r, s) \<in> set (fst (status_lines fl rows)) \<Longrightarrow> stock_status fl r = Inr s"
  by (induction rows) (auto split: prod.splits sum.splits)



text \<open>
  C8, as the code has it. Neither classifier validates the minimum stock level, and
  there is no error for a level that is not positive. \<open>check_low_stock\<close> gives a row
  with a minimum other than 0, negative ones included, one of the four tiers, and where
  no selected row has the minimum 0 it lists every row of the query with its status
  and raises nothing. The export of \<open>low_stock_report\<close> gives every row one of the
  four tiers, whatever its minimum is: a selected row with the minimum 0 is
  \<open>OUT OF STOCK\<close> for quantity 0 and \<open>CRITICAL\<close> otherwise, and the product list holds
  every row of the query, with its status.
\<close>

theorem min_stock_not_validated:
  "(min_stock p \<noteq> 0 \<longrightarrow>
      (\<exists>s. stock_status fl p = Inr s \<and>
           s \<in> set [''OUT OF STOCK'', ''CRITICAL'', ''LOW'', ''WARNING''])) \<and>
   csv_status fl p \<in> set [''OUT OF STOCK'', ''CRITICAL'', ''LOW'', ''WARNING''] \<and>
   (float_rounding fl \<and> min_stock p = 0 \<and> quantity p \<le> min_stock p \<longrightarrow>
      csv_status fl p = (if quantity p = 0 then ''OUT OF STOCK'' else ''CRITICAL'')) \<and>
   map fst (product_list fl items) = items \<and>
   (\<forall>(i, s) \<in> set (product_list fl items). s = csv_status fl i) \<and>
   ((\<forall>r \<in> set products. quantity r \<le> min_stock r \<longrightarrow> min_stock r \<noteq> 0) \<and>
    low_stock fl products \<noteq> [] \<longrightarrow>
      (\<exists>out. check_low_stock fl products = Some (out, None) \<and>
             map fst out = low_stock fl products \<and>
             (\<forall>(r, s) \<in> set out. stock_status fl r = Inr s)))"
proof (intro conjI impI)
  assume "min_stock p \<noteq> 0"
  then show "\<exists>s. stock_status fl p = Inr s \<and>
      s \<in> set [''OUT OF STOCK'', ''CRITICAL'', ''LOW'', ''WARNING'']"
    by (rule stock_status_Inr)
next
  show "csv_status fl p \<in> set [''OUT OF STOCK'', ''CRITICAL'', ''LOW'', ''WARNING'']"
    by (rule csv_status_tier)
next
  assume h: "float_rounding fl \<and> min_stock p = 0 \<and> quantity p \<le> min_stock p"
  then have "fl 0 = 0" using float_rounding_consts(1) by blast
  with h show "csv_status fl p = (if quantity p = 0 then ''OUT OF STOCK'' else ''CRITICAL'')"
    by (simp add: csv_status_def)
next
  show "map fst (product_list fl items) = items"
    by (simp add: product_list_def comp_def)
next
  show "\<forall>(i, s) \<in> set (product_list fl items). s = csv_status fl i"
    by (auto simp: product_list_def)
next
  assume h: "(\<forall>r \<in> set products. quantity r \<le> min_stock r \<longrightarrow> min_stock r \<noteq> 0) \<and>
      low_stock fl products \<noteq> []"
  then have "\<forall>r \<in> set (low_stock fl products). min_stock r \<noteq> 0"
    by (simp add: low_stock_def)
  from status_lines_complete[OF this]
  have c: "snd (status_lines fl (low_stock fl products)) = None"
    "map fst (fst (status_lines fl (low_stock fl products))) = low_stock fl products"
    by simp_all
  let ?out = "fst (status_lines fl (low_stock fl products))"
  have "check_low_stock fl products = Some (?out, None)"
    using h c(1) by (simp add: check_low_stock_def prod_eq_iff)
  moreover have "\<forall>(r, s) \<in> set ?out. stock_status fl r = Inr s"
    using status_lines_status by fastforce
  ultimately show "\<exists>out. check_low_stock fl products = Some (out, None) \<and>
      map fst out = low_stock fl products \<and> (\<forall>(r, s) \<in> set out. stock_status fl r = Inr s)"
    using c(2) by blast
qed

text \<open>
  At a row with the minimum \<open>-4\<close>, at a row with the minimum 0, and at a table of three
  rows, one of them with a negative minimum.
\<close>

theorem min_stock_not_validated_witness:
  "min_stock (stocked ''D'' (- 8) (- 4)) \<noteq> 0 \<and>
   stock_status unrounded (stocked ''D'' (- 8) (- 4)) = Inr ''WARNING'' \<and>
   float_rounding unrounded \<and>
   min_stock (stocked ''Kit'' (- 1) 0) = 0 \<and>
   quantity (stocked ''Kit'' (- 1) 0) \<le> min_stock (stocked ''Kit'' (- 1) 0) \<and>
   csv_status unrounded (stocked ''Kit'' (- 1) 0) = ''CRITICAL'' \<and>
   map min_stock [stocked ''A'' 1 8, stocked ''C'' 4 8, stocked ''D'' (- 8) (- 4)] =
     [8, 8, - 4] \<and>
   low_stock unrounded [stocked ''A'' 1 8, stocked ''C'' 4 8, stocked ''D'' (- 8) (- 4)] =
     [stocked ''A'' 1 8, stocked ''C'' 4 8, stocked ''D'' (- 8) (- 4)] \<and>
   check_low_stock unrounded [stocked ''A'' 1 8, stocked ''C'' 4 8, stocked ''D'' (- 8) (- 4)] =
     Some ([(stocked ''A'' 1 8, ''CRITICAL''), (stocked ''C'' 4 8, ''LOW''),
            (stocked ''D'' (- 8) (- 4), ''WARNING'')], None) \<and>
   product_list unrounded
     (low_stock_items unrounded [stocked ''A'' 1 8, stocked ''Kit'' 0 0]) =
     map (\<lambda>i. (i, csv_status unrounded i))
       (low_stock_items unrounded [stocked ''A'' 1 8, stocked ''Kit'' 0 0]) \<and>
   map snd (product_list unrounded
     (low_stock_items unrounded [stocked ''A'' 1 8, stocked ''Kit'' 0 0])) =
     [''OUT OF STOCK'', ''CRITICAL'']"
proof -
  let ?D = "stocked ''D'' (- 8) (- 4)"
  let ?K = "stocked ''Kit'' (- 1) 0"
  let ?ps = "[stocked ''A'' 1 8, stocked ''C'' 4 8, stocked ''D'' (- 8) (- 4)]"
  let ?is = "low_stock_items unrounded [stocked ''A'' 1 8, stocked ''Kit'' 0 0]"
  note wD = min_stock_not_validated[of ?D unrounded "[]" ?ps]
  note wK = min_stock_not_validated[of ?K unrounded ?is "[]"]
  have d0: "min_stock ?D \<noteq> 0" by (simp add: stocked_def)
  have dv: "stock_status unrounded ?D = Inr ''WARNING''"
    by (simp add: stock_status_def stocked_def unrounded_def)
  have k0: "min_stock ?K = 0" and k1: "quantity ?K \<le> min_stock ?K" and k2: "quantity ?K \<noteq> 0"
    by (simp_all add: stocked_def)
  have kc: "csv_status unrounded ?K = ''CRITICAL''"
    using wK float_rounding_unrounded k0 k1 k2 by simp
  have ms: "map min_stock ?ps = [8, 8, - 4]" by (simp add: stocked_def)
  have all: "\<forall>r \<in> set ?ps. quantity r \<le> min_stock r \<longrightarrow> min_stock r \<noteq> 0"
    by (simp add: stocked_def)
  have ls: "low_stock unrounded ?ps = ?ps"
    by (simp add: low_stock_def order_ratio_def stocked_def unrounded_def less_eq_prod_def)
  then have ne: "low_stock unrounded ?ps \<noteq> []" by simp
  from wD all ne have ex: "\<exists>out. check_low_stock unrounded ?ps = Some (out, None)"
    by blast
  have sl: "status_lines unrounded ?ps =
      ([(stocked ''A'' 1 8, ''CRITICAL''), (stocked ''C'' 4 8, ''LOW''), (?D, ''WARNING'')], None)"
    by (simp add: stock_status_def stocked_def unrounded_def)
  have cl: "check_low_stock unrounded ?ps =
      Some ([(stocked ''A'' 1 8, ''CRITICAL''), (stocked ''C'' 4 8, ''LOW''), (?D, ''WARNING'')],
            None)"
    using ex unfolding check_low_stock_def ls sl by simp
  have pl: "product_list unrounded ?is = map (\<lambda>i. (i, csv_status unrounded i)) ?is"
    using wK by (simp add: product_list_def)
  have ps: "map snd (product_list unrounded ?is) = [''OUT OF STOCK'', ''CRITICAL'']"
    by (simp add: product_list_def low_stock_items_def order_ratio_def csv_status_def
        stocked_def unrounded_def less_eq_prod_def)
  show ?thesis by (intro conjI d0 dv float_rounding_unrounded k0 k1 kc ms ls cl pl ps)
qed

text \<open>
  A row with the minimum \<open>-4\<close> and the quantity \<open>-8\<close> is selected by the query and is
  classified (\<open>WARNING\<close>), with every rounding of floats; nothing fails. The export
  classifies a row with the minimum 0 as well.
\<close>

lemma negative_minimum_classified:
  assumes "float_rounding fl"
  shows "stock_status fl (stocked ''Pod'' (- 8) (- 4)) = Inr ''WARNING''"
    and "csv_status fl (stocked ''Kit'' 0 0) = ''OUT OF STOCK''"
  using float_rounding_consts(3)[OF assms]
  by (simp_all add: stock_status_def csv_status_def stocked_def)

theorem stock_status_negative_minimum_counterexample:
  "min_stock (stocked ''Pod'' (- 8) (- 4)) \<le> 0 \<and>
   quantity (stocked ''Pod'' (- 8) (- 4)) \<le> min_stock (stocked ''Pod'' (- 8) (- 4)) \<and>
   stock_status unrounded (stocked ''Pod'' (- 8) (- 4)) = Inr ''WARNING'' \<and>
   min_stock (stocked ''Kit'' 0 0) \<le> 0 \<and>
   csv_status unrounded (stocked ''Kit'' 0 0) = ''OUT OF STOCK''"
  using negative_minimum_classified[OF float_rounding_unrounded]
  by (simp add: stocked_def)

lemma csv_status_cases:
  "csv_status fl i = ''OUT OF STOCK'' \<longleftrightarrow> quantity i = 0"
  "csv_status fl i = ''CRITICAL'' \<longleftrightarrow>
     quantity i \<noteq> 0 \<and> real_of_int (quantity i) \<le> fl (real_of_int (min_stock i)) * 0.25"
  "csv_status fl i = ''LOW'' \<longleftrightarrow>
     quantity i \<noteq> 0 \<and> \<not> real_of_int (quantity i) \<le> fl (real_of_int (min_stock i)) * 0.25 \<and>
     real_of_int (quantity i) \<le> fl (real_of_int (min_stock i)) * 0.5"
  "csv_status fl i = ''WARNING'' \<longleftrightarrow>
     quantity i \<noteq> 0 \<and> \<not> real_of_int (quantity i) \<le> fl (real_of_int (min_stock i)) * 0.25 \<and>
     \<not> real_of_int (quantity i) \<le> fl (real_of_int (min_stock i)) * 0.5"
  unfolding csv_status_def by (simp_all split: if_splits)

lemma group_by_severity_status:
  "group_by_severity fl items = (critical, low, warning) \<Longrightarrow>
     critical = filter (\<lambda>i. csv_status fl i = ''OUT OF STOCK'' \<or> csv_status fl i = ''CRITICAL'')
                  items \<and>
     low = filter (\<lambda>i. csv_status fl i = ''LOW'') items \<and>
     warning = filter (\<lambda>i. csv_status fl i = ''WARNING'') items"
proof (induction items arbitrary: critical low warning)
  case Nil
  then show ?case by simp
next
  case (Cons i items)
  obtain c l w where g: "group_by_severity fl items = (c, l, w)"
    by (cases "group_by_severity fl items")
  note IH = Cons.IH[OF g]
  show ?case
    using Cons.prems IH unfolding csv_status_cases
    by (simp add: g split: if_splits)
qed

lemma group_by_severity_all:
  "group_by_severity fl items = (critical, low, warning) \<Longrightarrow>
     mset critical + mset low + mset warning = mset items"
proof (induction items arbitrary: critical low warning)
  case Nil
  then show ?case by simp
next
  case (Cons i items)
  obtain c l w where g: "group_by_severity fl items = (c, l, w)"
    by (cases "group_by_severity fl items")
  note IH = Cons.IH[OF g]
  show ?case using Cons.prems IH by (auto simp: g split: if_splits)
qed

text \<open>
  C9. The rows of the low-stock listings are exactly the products with
  \<open>quantity \<le> min_stock\<close>. So no listed row has the status \<open>OK\<close>, the ratio of a
  listed row with a positive minimum never exceeds 1, exactly and as the float the code
  computes, and \<open>units_needed\<close> of every
  row of the report is \<open>min_stock - quantity\<close> and not negative. The report puts
  every row into one of its three groups, critical, low and warning.
\<close>

theorem low_stock_selection:
  "set (low_stock fl products) = {p \<in> set products. quantity p \<le> min_stock p} \<and>
   (\<forall>p \<in> set (low_stock fl products).
      quantity p \<le> min_stock p \<and> stock_status fl p \<noteq> Inr ''OK'' \<and>
      (0 < min_stock p \<longrightarrow>
         real_of_int (quantity p) / real_of_int (min_stock p) \<le> 1 \<and>
         (float_rounding fl \<longrightarrow>
            fl (real_of_int (quantity p) / real_of_int (min_stock p)) \<le> 1))) \<and>
   (\<forall>i \<in> set (low_stock_items fl products).
      quantity i \<le> min_stock i \<and> units_needed i = min_stock i - quantity i \<and>
      0 \<le> units_needed i \<and> csv_status fl i \<noteq> ''OK'') \<and>
   length (low_stock_items fl products) = length (low_stock fl products) \<and>
   (\<forall>critical low warning.
      group_by_severity fl (low_stock_items fl products) = (critical, low, warning) \<longrightarrow>
      mset critical + mset low + mset warning = mset (low_stock_items fl products))"
proof -
  have "\<forall>critical low warning.
      group_by_severity fl (low_stock_items fl products) = (critical, low, warning) \<longrightarrow>
      mset critical + mset low + mset warning = mset (low_stock_items fl products)"
    using group_by_severity_all by blast
  then show ?thesis
    by (auto simp: low_stock_def low_stock_items_def stock_status_not_OK csv_status_not_OK
        ratio_le_one)
qed

theorem low_stock_selection_witness:
  "low_stock unrounded [stocked ''A'' 3 4, stocked ''B'' 5 4, stocked ''C'' 0 10] =
     [stocked ''C'' 0 10, stocked ''A'' 3 4] \<and>
   quantity (stocked ''A'' 3 4) \<le> min_stock (stocked ''A'' 3 4) \<and>
   stock_status unrounded (stocked ''A'' 3 4) \<noteq> Inr ''OK'' \<and>
   0 < min_stock (stocked ''A'' 3 4) \<and>
   float_rounding unrounded \<and>
   unrounded (real_of_int (quantity (stocked ''A'' 3 4)) /
              real_of_int (min_stock (stocked ''A'' 3 4))) \<le> 1 \<and>
   stocked ''B'' 5 4 \<notin>
     set (low_stock unrounded [stocked ''A'' 3 4, stocked ''B'' 5 4, stocked ''C'' 0 10]) \<and>
   map units_needed
     (low_stock_items unrounded [stocked ''A'' 3 4, stocked ''B'' 5 4, stocked ''C'' 0 10]) =
     [10, 1]"
proof -
  let ?ps = "[stocked ''A'' 3 4, stocked ''B'' 5 4, stocked ''C'' 0 10]"
  have ls: "low_stock unrounded ?ps = [stocked ''C'' 0 10, stocked ''A'' 3 4]"
    by (simp add: low_stock_def order_ratio_def stocked_def unrounded_def less_eq_prod_def)
  have un: "map units_needed (low_stock_items unrounded ?ps) = [10, 1]"
    by (simp add: low_stock_items_def order_ratio_def stocked_def unrounded_def
        less_eq_prod_def)
  note w = low_stock_selection[of unrounded ?ps]
  have ain: "stocked ''A'' 3 4 \<in> set (low_stock unrounded ?ps)" unfolding ls by simp
  from w ain have a: "quantity (stocked ''A'' 3 4) \<le> min_stock (stocked ''A'' 3 4)"
    and ok: "stock_status unrounded (stocked ''A'' 3 4) \<noteq> Inr ''OK''"
    by blast+
  have pos: "0 < min_stock (stocked ''A'' 3 4)" by (simp add: stocked_def)
  from w ain pos float_rounding_unrounded
  have fr: "unrounded (real_of_int (quantity (stocked ''A'' 3 4)) /
                       real_of_int (min_stock (stocked ''A'' 3 4))) \<le> 1"
    by blast
  have bq: "\<not> quantity (stocked ''B'' 5 4) \<le> min_stock (stocked ''B'' 5 4)"
    by (simp add: stocked_def)
  from w have "set (low_stock unrounded ?ps) = {p \<in> set ?ps. quantity p \<le> min_stock p}" by blast
  with bq have b: "stocked ''B'' 5 4 \<notin> set (low_stock unrounded ?ps)" by blast
  show ?thesis by (intro conjI ls a ok pos float_rounding_unrounded fr b un)
qed

end
